theory Spec2Isabelle
  imports Complex_Main "HOL-Library.Sublist" "HOL-Library.AList"
begin

section \<open>The GitHub client: a model of the request execution layer\<close>

text \<open>
  The development follows the class \<open>GitHubClient\<close>: its constructor, the private
  methods \<open>rateLimitDelay\<close> and \<open>request\<close>, and the resource operations built on
  \<open>request\<close>. Mutable fields of the instance are passed explicitly: every method takes
  the client and returns the updated one. Everything the methods obtain from the platform
  is an input of the model: the two readings of \<open>Date.now()\<close> taken by
  \<open>rateLimitDelay\<close>, and the transport \<open>fetch\<close>, a function from the assembled
  request to a response (or to a network failure).

  Strings are lists of 8-bit characters (for text that is not ASCII: its UTF-8 bytes).
  Times are integers (milliseconds) and the rate ceiling is a rational; the quotient
  \<open>1000 / rateLimit\<close> and the delay are exact rationals, where the code has the
  doubles nearest to them. \<open>parseInt\<close> rounds the integer it reads to the nearest
  double, as the platform does. A number handed to an operation is represented by its
  string, as \<open>toString()\<close> gives it.
\<close>

subsection \<open>Platform functions on strings and numbers\<close>

definition digit_char :: "nat \<Rightarrow> char" where
  "digit_char d = char_of (48 + d)"

text \<open>The decimal numeral of a natural number, most significant digit first.\<close>

fun dec :: "nat \<Rightarrow> string" where
  "dec n = (if n < 10 then [digit_char n] else dec (n div 10) @ [digit_char (n mod 10)])"

declare dec.simps [simp del]

text \<open>
  The decimal numeral of an integer: its digits, after a minus sign when it is negative.
  This is the text of an integer as a server writes it into a header.
\<close>

definition decimal :: "int \<Rightarrow> string" where
  "decimal i = (if i < 0 then CHR ''-'' # dec (nat (- i)) else dec (nat i))"

definition is_digit :: "char \<Rightarrow> bool" where
  "is_digit c = (48 \<le> (of_char c :: nat) \<and> (of_char c :: nat) \<le> 57)"

definition digit_val :: "char \<Rightarrow> int" where
  "digit_val c = int (of_char c) - 48"

definition digits_value :: "string \<Rightarrow> int" where
  "digits_value ds = foldl (\<lambda>a c. 10 * a + digit_val c) 0 ds"

text \<open>
  The white space that \<open>parseInt\<close> skips, among the characters a header value can hold:
  tab, line feed, vertical tab, form feed, carriage return, space and the no-break space
  (byte \<open>0xA0\<close>).
\<close>

definition StrWhiteSpaceChar :: "char \<Rightarrow> bool" where
  "StrWhiteSpaceChar c = (of_char c \<in> {9, 10, 11, 12, 13, 32, 160 :: nat})"

text \<open>
  A JavaScript number that came out of \<open>parseInt\<close>: \<open>NaN\<close>, an integer that a
  double holds, or an infinity. The sign of a zero is not kept.
\<close>

datatype jsnum = NaN | Num int | PosInfinity | NegInfinity

text \<open>The number of binary digits of a positive integer.\<close>

function bits :: "int \<Rightarrow> nat" where
  "bits n = (if n \<le> 0 then 0 else Suc (bits (n div 2)))"
  by pat_completeness auto
termination
  by (relation "measure nat") auto

declare bits.simps [simp del]

text \<open>
  The double nearest to an integer. A double has 53 significant binary digits: the
  digits below them are rounded away, to the nearest, and to the even neighbour when the
  integer is half way between two doubles. An integer of magnitude up to \<open>2^53\<close> is
  kept as it is. A result of magnitude \<open>2^1024\<close> or more is an infinity.
\<close>

definition to_double :: "int \<Rightarrow> jsnum" where
  "to_double i =
     (let a = \<bar>i\<bar>;
          e = bits a - 53;
          q = a div 2 ^ e;
          r = a mod 2 ^ e;
          q' = (if 2 ^ e < 2 * r \<or> (2 * r = 2 ^ e \<and> odd q) then q + 1 else q);
          d = q' * 2 ^ e
      in if 1024 < bits d then (if i < 0 then NegInfinity else PosInfinity)
         else Num (if i < 0 then - d else d))"

text \<open>
  \<open>parseInt(s, 10)\<close>: skip leading white space, read an optional sign, then the longest
  run of decimal digits; whatever follows the digits is ignored, and no digit at all
  gives \<open>NaN\<close>. The integer that the digits denote becomes a number, that is, the
  nearest double.
\<close>

definition parseInt :: "string \<Rightarrow> jsnum" where
  "parseInt s =
     (let s1 = dropWhile StrWhiteSpaceChar s;
          neg = (s1 \<noteq> [] \<and> hd s1 = CHR ''-'');
          s2 = (if s1 \<noteq> [] \<and> (hd s1 = CHR ''-'' \<or> hd s1 = CHR ''+'') then tl s1 else s1);
          ds = takeWhile is_digit s2
      in if ds = [] then NaN
         else to_double ((if neg then - 1 else 1) * digits_value ds))"

text \<open>\<open>a || b\<close> on optional strings: an absent or an empty string is falsy.\<close>

definition str_or :: "string option \<Rightarrow> string option \<Rightarrow> string option" where
  "str_or a b = (case a of None \<Rightarrow> b | Some s \<Rightarrow> if s = [] then b else Some s)"

text \<open>\<open>a || d\<close> with a default that is a non-empty string literal.\<close>

definition str_or_default :: "string option \<Rightarrow> string \<Rightarrow> string" where
  "str_or_default a d = (case a of None \<Rightarrow> d | Some s \<Rightarrow> if s = [] then d else s)"

text \<open>\<open>a || d\<close> on an optional number with a default: absent and zero are falsy.\<close>

definition num_or :: "rat option \<Rightarrow> rat \<Rightarrow> rat" where
  "num_or a d = (case a of None \<Rightarrow> d | Some r \<Rightarrow> if r = 0 then d else r)"

subsection \<open>Data model\<close>

text \<open>\<open>Partial<GitHubClientConfig>\<close>: every field may be absent.\<close>

record GitHubClientConfig =
  cfg_token :: "string option"
  cfg_baseURL :: "string option"
  cfg_rateLimit :: "rat option"

record RateLimitInfo =
  limit :: jsnum
  remaining :: jsnum
  reset :: jsnum

record GitHubClient =
  token :: string
  baseURL :: string
  rateLimit :: rat
  lastRequestTime :: int
  rateLimitInfo :: "RateLimitInfo option"

text \<open>
  What a method can throw: a plain \<open>Error\<close> with its message (the constructor's and the
  API failure), the \<open>SyntaxError\<close> of a JSON parse, a \<open>TypeError\<close>, and the rejection
  of \<open>fetch\<close> when the exchange cannot complete.
\<close>

datatype error = Error string | SyntaxError | TypeError | NetworkError

subsection \<open>The constructor\<close>

definition token_required :: string where
  "token_required = ''GitHub token is required. Set GITHUB_TOKEN environment variable.''"

text \<open>
  The second argument is \<open>process.env.GITHUB_TOKEN\<close>. With no configuration object,
  \<open>config?.field\<close> is undefined.
\<close>

definition "constructor" :: "GitHubClientConfig option \<Rightarrow> string option \<Rightarrow> error + GitHubClient" where
  "constructor config env_token =
     (case str_or (Option.bind config cfg_token) env_token of
        None \<Rightarrow> Inl (Error token_required)
      | Some t \<Rightarrow>
          if t = [] then Inl (Error token_required)
          else Inr \<lparr> token = t,
                     baseURL = str_or_default (Option.bind config cfg_baseURL) ''https://api.github.com'',
                     rateLimit = num_or (Option.bind config cfg_rateLimit) 10,
                     lastRequestTime = 0,
                     rateLimitInfo = None \<rparr>)"

subsection \<open>JSON values\<close>

text \<open>
  A decoded JSON value. A number \<open>JNumber m e\<close> is the decimal \<open>m * 10^e\<close>, kept in
  normal form: \<open>m\<close> is not a multiple of ten, and zero is \<open>JNumber 0 0\<close>. The
  members of an object are listed in insertion order, with distinct keys.
\<close>

datatype json =
    JNull
  | JBool bool
  | JNumber int int
  | JString string
  | JArray "json list"
  | JObject "(string \<times> json) list"

text \<open>Truthiness of a value in a condition or under \<open>||\<close>.\<close>

fun truthy :: "json \<Rightarrow> bool" where
  "truthy JNull = False"
| "truthy (JBool b) = b"
| "truthy (JNumber m e) = (m \<noteq> 0)"
| "truthy (JString s) = (s \<noteq> [])"
| "truthy (JArray xs) = True"
| "truthy (JObject kvs) = True"

text \<open>
  \<open>Number::toString\<close> in radix 10 for the number \<open>m * 10^e\<close> in normal form: with
  \<open>k\<close> digits and the decimal point after the \<open>n\<close>-th digit, plain notation for
  \<open>-6 < n \<le> 21\<close> and exponent notation outside.
\<close>

definition Number_toString :: "int \<Rightarrow> int \<Rightarrow> string" where
  "Number_toString m e =
     (if m = 0 then ''0''
      else
        let s = dec (nat \<bar>m\<bar>);
            k = int (length s);
            n = k + e;
            digits =
              (if k \<le> n \<and> n \<le> 21 then s @ replicate (nat (n - k)) (CHR ''0'')
               else if 0 < n \<and> n \<le> 21 then take (nat n) s @ ''.'' @ drop (nat n) s
               else if - 6 < n \<and> n \<le> 0 then ''0.'' @ replicate (nat (- n)) (CHR ''0'') @ s
               else (if k = 1 then s else hd s # ''.'' @ tl s)
                    @ ''e'' @ (if n - 1 < 0 then ''-'' else ''+'') @ dec (nat \<bar>n - 1\<bar>))
        in if m < 0 then CHR ''-'' # digits else digits)"

fun join :: "string \<Rightarrow> string list \<Rightarrow> string" where
  "join sep [] = []"
| "join sep [x] = x"
| "join sep (x # y # ys) = x @ sep @ join sep (y # ys)"

fun sequence :: "'a option list \<Rightarrow> 'a list option" where
  "sequence [] = Some []"
| "sequence (None # xs) = None"
| "sequence (Some x # xs) = map_option ((#) x) (sequence xs)"

text \<open>
  \<open>ToString\<close> of a decoded value, as a template literal applies it; \<open>None\<close> is the
  \<open>TypeError\<close> of an object that cannot be converted. An array is the comma-separated
  list of its elements, \<open>null\<close> elements giving the empty string. An object decoded from
  JSON has no callable property, so one with a member \<open>toString\<close> of its own cannot be
  converted, and any other is \<open>[object Object]\<close>.
\<close>

fun ToString :: "json \<Rightarrow> string option" where
  "ToString JNull = Some ''null''"
| "ToString (JBool b) = Some (if b then ''true'' else ''false'')"
| "ToString (JNumber m e) = Some (Number_toString m e)"
| "ToString (JString s) = Some s"
| "ToString (JArray xs) =
     map_option (join '','')
       (sequence (map (\<lambda>x. if x = JNull then Some [] else ToString x) xs))"
| "ToString (JObject kvs) =
     (if ''toString'' \<in> set (map fst kvs) then None else Some ''[object Object]'')"

subsection \<open>\<open>JSON.parse\<close>\<close>

definition is_json_ws :: "char \<Rightarrow> bool" where
  "is_json_ws c = (of_char c \<in> {9, 10, 13, 32 :: nat})"

definition skip_ws :: "string \<Rightarrow> string" where
  "skip_ws s = dropWhile is_json_ws s"

definition hex_val :: "char \<Rightarrow> nat option" where
  "hex_val c =
     (let n = (of_char c :: nat)
      in if 48 \<le> n \<and> n \<le> 57 then Some (n - 48)
         else if 65 \<le> n \<and> n \<le> 70 then Some (n - 55)
         else if 97 \<le> n \<and> n \<le> 102 then Some (n - 87)
         else None)"

definition hex4 :: "string \<Rightarrow> nat option" where
  "hex4 s =
     (case map hex_val s of
        [Some a, Some b, Some c, Some d] \<Rightarrow> Some (((a * 16 + b) * 16 + c) * 16 + d)
      | _ \<Rightarrow> None)"

text \<open>
  The content of a string literal is read as a list of units: a byte of the text, or the
  16-bit code unit of a \<open>\u\<close> escape.
\<close>

datatype str_unit = Byte char | Unit nat

definition simple_escape :: "char \<Rightarrow> char option" where
  "simple_escape c =
     (if c = CHR 0x22 \<or> c = CHR 0x5C \<or> c = CHR ''/'' then Some c
      else if c = CHR ''b'' then Some (CHR 0x08)
      else if c = CHR ''f'' then Some (CHR 0x0C)
      else if c = CHR ''n'' then Some (CHR 0x0A)
      else if c = CHR ''r'' then Some (CHR 0x0D)
      else if c = CHR ''t'' then Some (CHR 0x09)
      else None)"

text \<open>
  The text after an opening quote, up to the closing quote: the units read and the rest
  of the input. A raw control character and an unknown escape are syntax errors.
\<close>

fun parse_chars :: "string \<Rightarrow> (str_unit list \<times> string) option" where
  "parse_chars [] = None"
| "parse_chars (c # cs) =
     (if c = CHR 0x22 then Some ([], cs)
      else if c = CHR 0x5C then
        (case cs of
           [] \<Rightarrow> None
         | e # r \<Rightarrow>
             if e = CHR ''u'' then
               (case hex4 (take 4 r) of
                  None \<Rightarrow> None
                | Some u \<Rightarrow> map_option (\<lambda>(us, rest). (Unit u # us, rest)) (parse_chars (drop 4 r)))
             else
               (case simple_escape e of
                  None \<Rightarrow> None
                | Some ch \<Rightarrow> map_option (\<lambda>(us, rest). (Byte ch # us, rest)) (parse_chars r)))
      else if (of_char c :: nat) < 32 then None
      else map_option (\<lambda>(us, rest). (Byte c # us, rest)) (parse_chars cs))"

definition utf8 :: "nat \<Rightarrow> string" where
  "utf8 cp =
     (if cp < 0x80 then [char_of cp]
      else if cp < 0x800 then [char_of (0xC0 + cp div 64), char_of (0x80 + cp mod 64)]
      else if cp < 0x10000 then
        [char_of (0xE0 + cp div 4096), char_of (0x80 + (cp div 64) mod 64),
         char_of (0x80 + cp mod 64)]
      else
        [char_of (0xF0 + cp div 262144), char_of (0x80 + (cp div 4096) mod 64),
         char_of (0x80 + (cp div 64) mod 64), char_of (0x80 + cp mod 64)])"

text \<open>
  The bytes of the decoded string: a surrogate pair of escapes is one code point, any
  other escape is encoded by itself.
\<close>

fun encode_units :: "str_unit list \<Rightarrow> string" where
  "encode_units [] = []"
| "encode_units (Byte c # r) = c # encode_units r"
| "encode_units (Unit h # Unit l # r) =
     (if 0xD800 \<le> h \<and> h \<le> 0xDBFF \<and> 0xDC00 \<le> l \<and> l \<le> 0xDFFF
      then utf8 (0x10000 + (h - 0xD800) * 0x400 + (l - 0xDC00)) @ encode_units r
      else utf8 h @ encode_units (Unit l # r))"
| "encode_units (Unit u # r) = utf8 u @ encode_units r"

definition parse_string :: "string \<Rightarrow> (string \<times> string) option" where
  "parse_string s = map_option (\<lambda>(us, rest). (encode_units us, rest)) (parse_chars s)"

text \<open>
  A number literal: an optional minus, an integer part without a leading zero, an
  optional fraction and an optional exponent. The value is brought to normal form.
\<close>

definition parse_number :: "string \<Rightarrow> (json \<times> string) option" where
  "parse_number s =
     (let neg = (s \<noteq> [] \<and> hd s = CHR ''-'');
          s1 = (if neg then tl s else s);
          d = takeWhile is_digit s1;
          ip = (if d \<noteq> [] \<and> hd d = CHR ''0'' then ''0'' else d);
          s2 = drop (length ip) s1;
          has_frac = (s2 \<noteq> [] \<and> hd s2 = CHR ''.'');
          f = (if has_frac then takeWhile is_digit (tl s2) else []);
          s3 = (if has_frac then drop (length f) (tl s2) else s2);
          has_exp = (s3 \<noteq> [] \<and> (hd s3 = CHR ''e'' \<or> hd s3 = CHR ''E''));
          s4 = (if has_exp then tl s3 else s3);
          eneg = (has_exp \<and> s4 \<noteq> [] \<and> hd s4 = CHR ''-'');
          s5 = (if has_exp \<and> s4 \<noteq> [] \<and> (hd s4 = CHR ''-'' \<or> hd s4 = CHR ''+'') then tl s4 else s4);
          x = (if has_exp then takeWhile is_digit s5 else []);
          s6 = (if has_exp then drop (length x) s5 else s3);
          ds = ip @ f;
          sig = rev (dropWhile (\<lambda>c. c = CHR ''0'') (rev ds));
          m = digits_value sig;
          ex = (if eneg then - digits_value x else digits_value x)
               - int (length f) + int (length ds - length sig)
      in if ip = [] \<or> (has_frac \<and> f = []) \<or> (has_exp \<and> x = []) then None
         else if m = 0 then Some (JNumber 0 0, s6)
         else Some (JNumber (if neg then - m else m) ex, s6))"

text \<open>
  The value parser descends through arrays and objects; the first argument bounds the
  number of nested and successive calls. A repeated key keeps its place and takes the
  later value.
\<close>

fun parse_value :: "nat \<Rightarrow> string \<Rightarrow> (json \<times> string) option"
  and parse_elements :: "nat \<Rightarrow> string \<Rightarrow> json list \<Rightarrow> (json list \<times> string) option"
  and parse_members :: "nat \<Rightarrow> string \<Rightarrow> (string \<times> json) list \<Rightarrow> ((string \<times> json) list \<times> string) option"
where
  "parse_value 0 s = None"
| "parse_value (Suc n) s =
     (case skip_ws s of
        [] \<Rightarrow> None
      | c # cs \<Rightarrow>
          if c = CHR ''{'' then
            (case skip_ws cs of
               [] \<Rightarrow> None
             | d # r \<Rightarrow>
                 if d = CHR ''}'' then Some (JObject [], r)
                 else map_option (\<lambda>(kvs, rest). (JObject kvs, rest)) (parse_members n (d # r) []))
          else if c = CHR ''['' then
            (case skip_ws cs of
               [] \<Rightarrow> None
             | d # r \<Rightarrow>
                 if d = CHR '']'' then Some (JArray [], r)
                 else map_option (\<lambda>(xs, rest). (JArray xs, rest)) (parse_elements n (d # r) []))
          else if c = CHR 0x22 then
            map_option (\<lambda>(str, rest). (JString str, rest)) (parse_string cs)
          else if c = CHR ''-'' \<or> is_digit c then parse_number (c # cs)
          else if take 4 (c # cs) = ''true'' then Some (JBool True, drop 4 (c # cs))
          else if take 5 (c # cs) = ''false'' then Some (JBool False, drop 5 (c # cs))
          else if take 4 (c # cs) = ''null'' then Some (JNull, drop 4 (c # cs))
          else None)"
| "parse_elements 0 s acc = None"
| "parse_elements (Suc n) s acc =
     (case parse_value n s of
        None \<Rightarrow> None
      | Some (v, r) \<Rightarrow>
          (case skip_ws r of
             [] \<Rightarrow> None
           | d # r' \<Rightarrow>
               if d = CHR '','' then parse_elements n r' (acc @ [v])
               else if d = CHR '']'' then Some (acc @ [v], r')
               else None))"
| "parse_members 0 s acc = None"
| "parse_members (Suc n) s acc =
     (case skip_ws s of
        [] \<Rightarrow> None
      | q # r \<Rightarrow>
          if q \<noteq> CHR 0x22 then None
          else
            (case parse_string r of
               None \<Rightarrow> None
             | Some (k, r1) \<Rightarrow>
                 (case skip_ws r1 of
                    [] \<Rightarrow> None
                  | colon # r2 \<Rightarrow>
                      if colon \<noteq> CHR '':'' then None
                      else
                        (case parse_value n r2 of
                           None \<Rightarrow> None
                         | Some (v, r3) \<Rightarrow>
                             (case skip_ws r3 of
                                [] \<Rightarrow> None
                              | d # r4 \<Rightarrow>
                                  if d = CHR '','' then parse_members n r4 (AList.update k v acc)
                                  else if d = CHR ''}'' then Some (AList.update k v acc, r4)
                                  else None)))))"

text \<open>
  \<open>JSON.parse\<close>: one value, with nothing but white space after it. \<open>None\<close> is the
  \<open>SyntaxError\<close>. Twice the length of the text is enough for the bound of the value
  parser (lemma \<open>JSON_parse_fuel\<close> below).
\<close>

definition JSON_parse :: "string \<Rightarrow> json option" where
  "JSON_parse s =
     (case parse_value (2 * length s + 2) s of
        None \<Rightarrow> None
      | Some (v, rest) \<Rightarrow> if skip_ws rest = [] then Some v else None)"

subsection \<open>\<open>JSON.stringify\<close>\<close>

definition hex_digit :: "nat \<Rightarrow> char" where
  "hex_digit d = (if d < 10 then char_of (48 + d) else char_of (87 + d))"

definition quote_char :: "char \<Rightarrow> string" where
  "quote_char c =
     (let n = (of_char c :: nat)
      in if c = CHR 0x22 \<or> c = CHR 0x5C then [CHR 0x5C, c]
         else if n = 8 then [CHR 0x5C, CHR ''b'']
         else if n = 12 then [CHR 0x5C, CHR ''f'']
         else if n = 10 then [CHR 0x5C, CHR ''n'']
         else if n = 13 then [CHR 0x5C, CHR ''r'']
         else if n = 9 then [CHR 0x5C, CHR ''t'']
         else if n < 32 then [CHR 0x5C, CHR ''u'', CHR ''0'', CHR ''0'', hex_digit (n div 16), hex_digit (n mod 16)]
         else [c])"

definition quote :: "string \<Rightarrow> string" where
  "quote s = CHR 0x22 # concat (map quote_char s) @ [CHR 0x22]"

fun JSON_stringify :: "json \<Rightarrow> string" where
  "JSON_stringify JNull = ''null''"
| "JSON_stringify (JBool b) = (if b then ''true'' else ''false'')"
| "JSON_stringify (JNumber m e) = Number_toString m e"
| "JSON_stringify (JString s) = quote s"
| "JSON_stringify (JArray xs) = ''['' @ join '','' (map JSON_stringify xs) @ '']''"
| "JSON_stringify (JObject kvs) =
     ''{'' @ join '','' (map (\<lambda>kv. quote (fst kv) @ '':'' @ JSON_stringify (snd kv)) kvs) @ ''}''"

subsection \<open>The rate limiter\<close>

text \<open>
  \<open>1000 / this.rateLimit\<close>. Division by zero gives \<open>Infinity\<close> in JavaScript, which
  is a value of its own here.
\<close>

datatype delay = Ms rat | Infinity

definition minDelay :: "GitHubClient \<Rightarrow> delay" where
  "minDelay c = (if rateLimit c = 0 then Infinity else Ms (1000 / rateLimit c))"

text \<open>
  The suspension that \<open>rateLimitDelay\<close> asks of \<open>setTimeout\<close> when the first reading of
  the clock is \<open>now\<close>; \<open>None\<close> when the method does not suspend.
\<close>

definition suspension :: "GitHubClient \<Rightarrow> int \<Rightarrow> delay option" where
  "suspension c now =
     (let timeSinceLastRequest = now - lastRequestTime c
      in case minDelay c of
           Infinity \<Rightarrow> Some Infinity
         | Ms d \<Rightarrow>
             if of_int timeSinceLastRequest < d then Some (Ms (d - of_int timeSinceLastRequest))
             else None)"

text \<open>
  \<open>rateLimitDelay\<close> reads the clock twice: \<open>now\<close> on entry, and \<open>now'\<close> when it stores
  the time of the dispatch, after the suspension if there was one.
\<close>

definition rateLimitDelay :: "GitHubClient \<Rightarrow> int \<Rightarrow> int \<Rightarrow> GitHubClient \<times> delay option" where
  "rateLimitDelay c now now' = (c\<lparr>lastRequestTime := now'\<rparr>, suspension c now)"

text \<open>
  What the method expects of the platform: between the two readings the clock has
  advanced by the suspension asked for, at least, and has not gone back when none was
  asked. A suspension without end never returns.
\<close>

definition timer_honoured :: "int \<Rightarrow> delay option \<Rightarrow> int \<Rightarrow> bool" where
  "timer_honoured now susp now' =
     (case susp of
        None \<Rightarrow> now \<le> now'
      | Some (Ms d) \<Rightarrow> of_int now + d \<le> of_int now'
      | Some Infinity \<Rightarrow> False)"

text \<open>
  A weaker expectation, which fits a timer that counts whole milliseconds and so drops
  the fraction of the delay it is asked for, as \<open>setTimeout\<close> does: between the two
  readings the clock has advanced by the whole part of the suspension, at least.
\<close>

definition timer_truncated :: "int \<Rightarrow> delay option \<Rightarrow> int \<Rightarrow> bool" where
  "timer_truncated now susp now' =
     (case susp of
        None \<Rightarrow> now \<le> now'
      | Some (Ms d) \<Rightarrow> now + \<lfloor>d\<rfloor> \<le> now'
      | Some Infinity \<Rightarrow> False)"

subsection \<open>Requests and responses\<close>

text \<open>
  The argument of \<open>fetch\<close>: the URL and the options object. The headers are a
  JavaScript object, a finite map from names (case matters) to values.
\<close>

record http_request =
  req_url :: string
  req_method :: string
  req_headers :: "string \<rightharpoonup> string"
  req_body :: "string option"

text \<open>
  A response: the status, the header list as received, and the text of the body.
\<close>

record Response =
  status :: nat
  headers :: "(string \<times> string) list"
  body :: string

definition ok :: "Response \<Rightarrow> bool" where
  "ok r = (200 \<le> status r \<and> status r \<le> 299)"

definition lower_char :: "char \<Rightarrow> char" where
  "lower_char c = (let n = (of_char c :: nat) in if 65 \<le> n \<and> n \<le> 90 then char_of (n + 32) else c)"

text \<open>
  \<open>Headers.get\<close>: names match without regard to case, and the values of a repeated
  header are joined with a comma and a space.
\<close>

definition headers_get :: "(string \<times> string) list \<Rightarrow> string \<Rightarrow> string option" where
  "headers_get hs name =
     (let vs = map snd (filter (\<lambda>kv. map lower_char (fst kv) = map lower_char name) hs)
      in if vs = [] then None else Some (join '', '' vs))"

text \<open>The platform for one call of \<open>request\<close>: the two readings of the clock, and the transport.
  \<open>fetch\<close> gives \<open>None\<close> when the exchange cannot complete.\<close>

record world =
  now1 :: int
  now2 :: int
  fetch :: "http_request \<Rightarrow> Response option"

datatype decoded = Json json | Text string

text \<open>
  What one call of \<open>request\<close> did: the client afterwards, the suspension asked by the
  rate limiter, the request handed to \<open>fetch\<close>, and the value returned or the error
  thrown.
\<close>

record exchange =
  client_after :: GitHubClient
  suspended :: "delay option"
  dispatched :: http_request
  outcome :: "error + decoded"

subsection \<open>\<open>request\<close>\<close>

definition default_headers :: "string \<Rightarrow> (string \<rightharpoonup> string)" where
  "default_headers tok =
     [''Authorization'' \<mapsto> ''Bearer '' @ tok,
      ''Accept'' \<mapsto> ''application/vnd.github+json'',
      ''X-GitHub-Api-Version'' \<mapsto> ''2022-11-28'']"

text \<open>\<open>if (body)\<close>: an absent body is falsy.\<close>

definition has_body :: "json option \<Rightarrow> bool" where
  "has_body b = (case b of None \<Rightarrow> False | Some v \<Rightarrow> truthy v)"

definition build_headers :: "GitHubClient \<Rightarrow> json option \<Rightarrow> (string \<rightharpoonup> string) option \<Rightarrow> (string \<rightharpoonup> string)" where
  "build_headers c b customHeaders =
     (let hs = default_headers (token c) ++ (case customHeaders of None \<Rightarrow> Map.empty | Some h \<Rightarrow> h)
      in if has_body b then hs(''Content-Type'' \<mapsto> ''application/json'') else hs)"

text \<open>Lines 72 to 83: the rate limit information is replaced when the three headers are there.\<close>

definition extract_rateLimitInfo :: "GitHubClient \<Rightarrow> Response \<Rightarrow> GitHubClient" where
  "extract_rateLimitInfo c r =
     (case (headers_get (headers r) ''X-RateLimit-Limit'',
            headers_get (headers r) ''X-RateLimit-Remaining'',
            headers_get (headers r) ''X-RateLimit-Reset'') of
        (Some l, Some rm, Some rs) \<Rightarrow>
          if l \<noteq> [] \<and> rm \<noteq> [] \<and> rs \<noteq> []
          then c\<lparr>rateLimitInfo :=
                   Some \<lparr> limit = parseInt l, remaining = parseInt rm, reset = parseInt rs \<rparr>\<rparr>
          else c
      | _ \<Rightarrow> c)"

text \<open>
  Lines 88 to 93. \<open>message_of\<close> is \<open>errorData.message\<close>, with \<open>None\<close> when the
  property is undefined or when the \<open>try\<close> block throws: the body is not JSON, or it is
  \<open>null\<close>, whose properties cannot be read. A value that is not an object has no such
  property. \<open>errorMessage\<close> is then \<open>errorData.message || errorText\<close>, or \<open>errorText\<close>
  from the \<open>catch\<close>.
\<close>

definition message_of :: "string \<Rightarrow> json option" where
  "message_of errorText =
     (case JSON_parse errorText of
        Some (JObject kvs) \<Rightarrow> map_of kvs ''message''
      | _ \<Rightarrow> None)"

definition errorMessage :: "string \<Rightarrow> json" where
  "errorMessage errorText =
     (case message_of errorText of
        None \<Rightarrow> JString errorText
      | Some m \<Rightarrow> if truthy m then m else JString errorText)"

text \<open>Line 94: the error thrown for a response that is not ok.\<close>

definition api_error :: "nat \<Rightarrow> string \<Rightarrow> error" where
  "api_error st errorText =
     (case ToString (errorMessage errorText) of
        None \<Rightarrow> TypeError
      | Some m \<Rightarrow> Error (''GitHub API error ('' @ dec st @ ''): '' @ m))"

text \<open>Lines 97 to 102: the value returned for a response that is ok.\<close>

definition decode :: "Response \<Rightarrow> error + decoded" where
  "decode r =
     (case headers_get (headers r) ''content-type'' of
        None \<Rightarrow> Inr (Text (body r))
      | Some contentType \<Rightarrow>
          if contentType \<noteq> [] \<and> sublist ''application/json'' contentType
          then (case JSON_parse (body r) of None \<Rightarrow> Inl SyntaxError | Some v \<Rightarrow> Inr (Json v))
          else Inr (Text (body r)))"

text \<open>
  \<open>request\<close>: the rate limiter, then the request is assembled and handed to \<open>fetch\<close>;
  when \<open>fetch\<close> rejects, nothing after it runs.
\<close>

definition request ::
  "GitHubClient \<Rightarrow> world \<Rightarrow> string \<Rightarrow> string \<Rightarrow> json option \<Rightarrow> (string \<rightharpoonup> string) option \<Rightarrow> exchange" where
  "request c w meth path b customHeaders =
     (let (c1, susp) = rateLimitDelay c (now1 w) (now2 w);
          req = \<lparr> req_url = baseURL c1 @ path,
                  req_method = meth,
                  req_headers = build_headers c1 b customHeaders,
                  req_body = (case b of None \<Rightarrow> None
                              | Some v \<Rightarrow> if truthy v then Some (JSON_stringify v) else None) \<rparr>
      in case fetch w req of
           None \<Rightarrow>
             \<lparr> client_after = c1, suspended = susp, dispatched = req, outcome = Inl NetworkError \<rparr>
         | Some response \<Rightarrow>
             \<lparr> client_after = extract_rateLimitInfo c1 response,
               suspended = susp,
               dispatched = req,
               outcome = (if \<not> ok response
                          then Inl (api_error (status response) (body response))
                          else decode response) \<rparr>)"

subsection \<open>\<open>URLSearchParams\<close>\<close>

type_synonym URLSearchParams = "(string \<times> string) list"

text \<open>
  \<open>set(name, value)\<close>: the first pair of that name takes the value and the others of
  that name go; without one, the pair is appended.
\<close>

fun params_set :: "string \<Rightarrow> string \<Rightarrow> URLSearchParams \<Rightarrow> URLSearchParams" where
  "params_set k v [] = [(k, v)]"
| "params_set k v (p # ps) =
     (if fst p = k then (k, v) # filter (\<lambda>q. fst q \<noteq> k) ps else p # params_set k v ps)"

definition HEX_digit :: "nat \<Rightarrow> char" where
  "HEX_digit d = (if d < 10 then char_of (48 + d) else char_of (55 + d))"

text \<open>
  The \<open>application/x-www-form-urlencoded\<close> serializer: letters, digits and \<open>*-._\<close> stay,
  a space becomes \<open>+\<close>, and any other byte is percent-encoded.
\<close>

definition urlencode_char :: "char \<Rightarrow> string" where
  "urlencode_char c =
     (let n = (of_char c :: nat)
      in if n = 32 then ''+''
         else if (48 \<le> n \<and> n \<le> 57) \<or> (65 \<le> n \<and> n \<le> 90) \<or> (97 \<le> n \<and> n \<le> 122)
                 \<or> n = 42 \<or> n = 45 \<or> n = 46 \<or> n = 95 then [c]
         else [CHR ''%'', HEX_digit (n div 16), HEX_digit (n mod 16)])"

definition urlencode :: "string \<Rightarrow> string" where
  "urlencode s = concat (map urlencode_char s)"

definition params_toString :: "URLSearchParams \<Rightarrow> string" where
  "params_toString q = join ''&'' (map (\<lambda>kv. urlencode (fst kv) @ ''='' @ urlencode (snd kv)) q)"

subsection \<open>Resource operations\<close>

text \<open>
  A JavaScript number handed to an operation (a page, an issue number): any double, so
  also a fraction, an infinity or \<open>NaN\<close>. An operation looks at such a number in two
  ways only: as a string, by \<open>toString()\<close> or inside a template literal, and in a
  condition. A number is represented by its string, which the platform determines and
  which determines the number (but for the sign of a zero): \<open>2\<close> is the number with
  the string \<open>2\<close>, and so are \<open>0\<close> and \<open>-0\<close> with \<open>0\<close>, one and a half with \<open>1.5\<close>,
  \<open>10^21\<close> with \<open>1e+21\<close>, and \<open>NaN\<close> with \<open>NaN\<close>. In a condition, \<open>0\<close>, \<open>-0\<close>
  and \<open>NaN\<close> are falsy and every other number is truthy.
\<close>

datatype number = Number (num_toString: string)

definition num_truthy :: "number \<Rightarrow> bool" where
  "num_truthy n = (num_toString n \<noteq> ''0'' \<and> num_toString n \<noteq> ''NaN'')"

text \<open>
  The optional \<open>params\<close> object of an operation: a finite map from the names of the
  parameters that are there to their values, numbers or strings.
\<close>

datatype pval = PNumber number | PString string

type_synonym params = "string \<rightharpoonup> pval"

fun pval_truthy :: "pval \<Rightarrow> bool" where
  "pval_truthy (PNumber n) = num_truthy n"
| "pval_truthy (PString s) = (s \<noteq> [])"

fun pval_toString :: "pval \<Rightarrow> string" where
  "pval_toString (PNumber n) = num_toString n"
| "pval_toString (PString s) = s"

text \<open>
  One line \<open>if (params?.name) queryParams.set("name", params.name)\<close>, with
  \<open>.toString()\<close> for a number.
\<close>

definition set_param :: "params option \<Rightarrow> string \<Rightarrow> URLSearchParams \<Rightarrow> URLSearchParams" where
  "set_param ps name q =
     (case ps of
        None \<Rightarrow> q
      | Some p \<Rightarrow>
          (case p name of
             None \<Rightarrow> q
           | Some v \<Rightarrow> if pval_truthy v then params_set name (pval_toString v) q else q))"

text \<open>The lines of one operation, in order, on the parameters it reads.\<close>

definition set_params :: "params option \<Rightarrow> string list \<Rightarrow> URLSearchParams \<Rightarrow> URLSearchParams" where
  "set_params ps names q = fold (set_param ps) names q"

text \<open>The path with \<open>${query ? `?${query}` : ""}\<close> appended.\<close>

definition with_query :: "string \<Rightarrow> URLSearchParams \<Rightarrow> string" where
  "with_query p q = (let query = params_toString q in p @ (if query \<noteq> [] then ''?'' @ query else []))"

definition listUserRepos_query :: "params option \<Rightarrow> URLSearchParams" where
  "listUserRepos_query ps = set_params ps [''page'', ''per_page'', ''type'', ''sort''] []"

definition listUserRepos :: "GitHubClient \<Rightarrow> world \<Rightarrow> params option \<Rightarrow> exchange" where
  "listUserRepos c w ps =
     request c w ''GET'' (with_query ''/user/repos'' (listUserRepos_query ps)) None None"

definition getRepo :: "GitHubClient \<Rightarrow> world \<Rightarrow> string \<Rightarrow> string \<Rightarrow> exchange" where
  "getRepo c w owner repo = request c w ''GET'' (''/repos/'' @ owner @ ''/'' @ repo) None None"

definition createRepo :: "GitHubClient \<Rightarrow> world \<Rightarrow> json \<Rightarrow> exchange" where
  "createRepo c w data = request c w ''POST'' ''/user/repos'' (Some data) None"

definition listIssues_query :: "params option \<Rightarrow> URLSearchParams" where
  "listIssues_query ps = set_params ps [''page'', ''per_page'', ''state'', ''labels''] []"

definition listIssues :: "GitHubClient \<Rightarrow> world \<Rightarrow> string \<Rightarrow> string \<Rightarrow> params option \<Rightarrow> exchange" where
  "listIssues c w owner repo ps =
     request c w ''GET''
       (with_query (''/repos/'' @ owner @ ''/'' @ repo @ ''/issues'') (listIssues_query ps)) None None"

definition getIssue :: "GitHubClient \<Rightarrow> world \<Rightarrow> string \<Rightarrow> string \<Rightarrow> number \<Rightarrow> exchange" where
  "getIssue c w owner repo issueNumber =
     request c w ''GET''
       (''/repos/'' @ owner @ ''/'' @ repo @ ''/issues/'' @ num_toString issueNumber) None None"

definition createIssue :: "GitHubClient \<Rightarrow> world \<Rightarrow> string \<Rightarrow> string \<Rightarrow> json \<Rightarrow> exchange" where
  "createIssue c w owner repo data =
     request c w ''POST'' (''/repos/'' @ owner @ ''/'' @ repo @ ''/issues'') (Some data) None"

definition updateIssue :: "GitHubClient \<Rightarrow> world \<Rightarrow> string \<Rightarrow> string \<Rightarrow> number \<Rightarrow> json \<Rightarrow> exchange" where
  "updateIssue c w owner repo issueNumber data =
     request c w ''PATCH''
       (''/repos/'' @ owner @ ''/'' @ repo @ ''/issues/'' @ num_toString issueNumber) (Some data) None"

definition listPullRequests_query :: "params option \<Rightarrow> URLSearchParams" where
  "listPullRequests_query ps = set_params ps [''page'', ''per_page'', ''state'', ''head'', ''base''] []"

definition listPullRequests :: "GitHubClient \<Rightarrow> world \<Rightarrow> string \<Rightarrow> string \<Rightarrow> params option \<Rightarrow> exchange" where
  "listPullRequests c w owner repo ps =
     request c w ''GET''
       (with_query (''/repos/'' @ owner @ ''/'' @ repo @ ''/pulls'') (listPullRequests_query ps)) None None"

definition getPullRequest :: "GitHubClient \<Rightarrow> world \<Rightarrow> string \<Rightarrow> string \<Rightarrow> number \<Rightarrow> exchange" where
  "getPullRequest c w owner repo pullNumber =
     request c w ''GET''
       (''/repos/'' @ owner @ ''/'' @ repo @ ''/pulls/'' @ num_toString pullNumber) None None"

definition createPullRequest :: "GitHubClient \<Rightarrow> world \<Rightarrow> string \<Rightarrow> string \<Rightarrow> json \<Rightarrow> exchange" where
  "createPullRequest c w owner repo data =
     request c w ''POST'' (''/repos/'' @ owner @ ''/'' @ repo @ ''/pulls'') (Some data) None"

definition listBranches_query :: "params option \<Rightarrow> URLSearchParams" where
  "listBranches_query ps = set_params ps [''page'', ''per_page''] []"

definition listBranches :: "GitHubClient \<Rightarrow> world \<Rightarrow> string \<Rightarrow> string \<Rightarrow> params option \<Rightarrow> exchange" where
  "listBranches c w owner repo ps =
     request c w ''GET''
       (with_query (''/repos/'' @ owner @ ''/'' @ repo @ ''/branches'') (listBranches_query ps)) None None"

text \<open>\<open>getFileContent\<close> takes \<open>ref\<close> as an optional argument of its own.\<close>

definition getFileContent_query :: "string option \<Rightarrow> URLSearchParams" where
  "getFileContent_query ref =
     (case ref of None \<Rightarrow> [] | Some r \<Rightarrow> if r \<noteq> [] then params_set ''ref'' r [] else [])"

definition getFileContent :: "GitHubClient \<Rightarrow> world \<Rightarrow> string \<Rightarrow> string \<Rightarrow> string \<Rightarrow> string option \<Rightarrow> exchange" where
  "getFileContent c w owner repo path ref =
     request c w ''GET''
       (with_query (''/repos/'' @ owner @ ''/'' @ repo @ ''/contents/'' @ path) (getFileContent_query ref))
       None None"

text \<open>The two searches start from \<open>new URLSearchParams({ q: query })\<close> and always send it.\<close>

definition search_query :: "string \<Rightarrow> params option \<Rightarrow> URLSearchParams" where
  "search_query query ps = set_params ps [''page'', ''per_page'', ''sort'', ''order''] [(''q'', query)]"

definition searchRepositories :: "GitHubClient \<Rightarrow> world \<Rightarrow> string \<Rightarrow> params option \<Rightarrow> exchange" where
  "searchRepositories c w query ps =
     request c w ''GET'' (''/search/repositories?'' @ params_toString (search_query query ps)) None None"

definition searchCode :: "GitHubClient \<Rightarrow> world \<Rightarrow> string \<Rightarrow> params option \<Rightarrow> exchange" where
  "searchCode c w query ps =
     request c w ''GET'' (''/search/code?'' @ params_toString (search_query query ps)) None None"

definition listCommits_query :: "params option \<Rightarrow> URLSearchParams" where
  "listCommits_query ps = set_params ps [''page'', ''per_page'', ''sha'', ''path'', ''author''] []"

definition listCommits :: "GitHubClient \<Rightarrow> world \<Rightarrow> string \<Rightarrow> string \<Rightarrow> params option \<Rightarrow> exchange" where
  "listCommits c w owner repo ps =
     request c w ''GET''
       (with_query (''/repos/'' @ owner @ ''/'' @ repo @ ''/commits'') (listCommits_query ps)) None None"

text \<open>A call of one of the fifteen operations, with its arguments.\<close>

datatype operation =
    ListUserRepos "params option"
  | GetRepo string string
  | CreateRepo json
  | ListIssues string string "params option"
  | GetIssue string string number
  | CreateIssue string string json
  | UpdateIssue string string number json
  | ListPullRequests string string "params option"
  | GetPullRequest string string number
  | CreatePullRequest string string json
  | ListBranches string string "params option"
  | GetFileContent string string string "string option"
  | SearchRepositories string "params option"
  | SearchCode string "params option"
  | ListCommits string string "params option"

fun invoke :: "GitHubClient \<Rightarrow> world \<Rightarrow> operation \<Rightarrow> exchange" where
  "invoke c w (ListUserRepos ps) = listUserRepos c w ps"
| "invoke c w (GetRepo owner repo) = getRepo c w owner repo"
| "invoke c w (CreateRepo data) = createRepo c w data"
| "invoke c w (ListIssues owner repo ps) = listIssues c w owner repo ps"
| "invoke c w (GetIssue owner repo n) = getIssue c w owner repo n"
| "invoke c w (CreateIssue owner repo data) = createIssue c w owner repo data"
| "invoke c w (UpdateIssue owner repo n data) = updateIssue c w owner repo n data"
| "invoke c w (ListPullRequests owner repo ps) = listPullRequests c w owner repo ps"
| "invoke c w (GetPullRequest owner repo n) = getPullRequest c w owner repo n"
| "invoke c w (CreatePullRequest owner repo data) = createPullRequest c w owner repo data"
| "invoke c w (ListBranches owner repo ps) = listBranches c w owner repo ps"
| "invoke c w (GetFileContent owner repo path ref) = getFileContent c w owner repo path ref"
| "invoke c w (SearchRepositories query ps) = searchRepositories c w query ps"
| "invoke c w (SearchCode query ps) = searchCode c w query ps"
| "invoke c w (ListCommits owner repo ps) = listCommits c w owner repo ps"




subsection \<open>The tool layer\<close>

text \<open>
  \<open>registerTools\<close> keeps one client in \<open>_client\<close>, built by \<open>getClient\<close> on first
  use with no configuration object. Every tool handler calls \<open>getClient()\<close> and then one
  operation inside \<open>try\<close>. \<open>tool_call\<close> is that block: it gives the content of
  \<open>_client\<close> afterwards, the request handed to \<open>fetch\<close> if there was one, and the
  value or the error that the handler then renders as text.
\<close>

definition getClient :: "string option \<Rightarrow> GitHubClient option \<Rightarrow> error + GitHubClient" where
  "getClient env_token cached =
     (case cached of None \<Rightarrow> constructor None env_token | Some c \<Rightarrow> Inr c)"

definition tool_call ::
  "string option \<Rightarrow> GitHubClient option \<Rightarrow> world \<Rightarrow> operation
     \<Rightarrow> GitHubClient option \<times> http_request option \<times> (error + decoded)" where
  "tool_call env_token cached w op =
     (case getClient env_token cached of
        Inl e \<Rightarrow> (cached, None, Inl e)
      | Inr c \<Rightarrow>
          (let ex = invoke c w op
           in (Some (client_after ex), Some (dispatched ex), outcome ex)))"

subsection \<open>Sequences of calls through one client\<close>

text \<open>
  Calls issued one after the other, each with its own platform: the exchanges, the
  times stored by the rate limiter, and the readings of the clock in the order taken.
\<close>

fun run :: "GitHubClient \<Rightarrow> (world \<times> operation) list \<Rightarrow> exchange list" where
  "run c [] = []"
| "run c (call # calls) =
     (let ex = invoke c (fst call) (snd call) in ex # run (client_after ex) calls)"

definition dispatch_times :: "GitHubClient \<Rightarrow> (world \<times> operation) list \<Rightarrow> int list" where
  "dispatch_times c calls = map (\<lambda>ex. lastRequestTime (client_after ex)) (run c calls)"

definition clock_readings :: "(world \<times> operation) list \<Rightarrow> int list" where
  "clock_readings calls = concat (map (\<lambda>call. [now1 (fst call), now2 (fst call)]) calls)"

text \<open>Every call of the sequence finds its suspension honoured by the platform.\<close>

fun honoured_run :: "GitHubClient \<Rightarrow> (world \<times> operation) list \<Rightarrow> bool" where
  "honoured_run c [] = True"
| "honoured_run c (call # calls) =
     (timer_honoured (now1 (fst call)) (suspension c (now1 (fst call))) (now2 (fst call))
      \<and> honoured_run (client_after (invoke c (fst call) (snd call))) calls)"

text \<open>Every call of the sequence is served by a timer that counts whole milliseconds.\<close>

fun truncated_run :: "GitHubClient \<Rightarrow> (world \<times> operation) list \<Rightarrow> bool" where
  "truncated_run c [] = True"
| "truncated_run c (call # calls) =
     (timer_truncated (now1 (fst call)) (suspension c (now1 (fst call))) (now2 (fst call))
      \<and> truncated_run (client_after (invoke c (fst call) (snd call))) calls)"

section \<open>The bound of the JSON parser\<close>

text \<open>
  The first argument of the value parser only bounds its recursion. More of it never
  changes a result, and a parse that succeeds with some bound succeeds with at most twice
  the number of characters it consumes. So the bound that \<open>JSON_parse\<close> gives is
  enough: \<open>JSON_parse\<close> finds a value exactly when some bound does.
\<close>

lemma parse_elements_Suc:
  "parse_elements (Suc n) s acc = Some res \<longleftrightarrow>
     (\<exists>v r d r'. parse_value n s = Some (v, r) \<and> skip_ws r = d # r'
        \<and> ((d = CHR '','' \<and> parse_elements n r' (acc @ [v]) = Some res)
           \<or> (d = CHR '']'' \<and> res = (acc @ [v], r'))))"
  by (auto split: option.splits list.splits)

lemma parse_members_Suc:
  "parse_members (Suc n) s acc = Some res \<longleftrightarrow>
     (\<exists>r k r1 r2 v r3 d r4.
        skip_ws s = CHR 0x22 # r \<and> parse_string r = Some (k, r1) \<and> skip_ws r1 = CHR '':'' # r2
        \<and> parse_value n r2 = Some (v, r3) \<and> skip_ws r3 = d # r4
        \<and> ((d = CHR '','' \<and> parse_members n r4 (AList.update k v acc) = Some res)
           \<or> (d = CHR ''}'' \<and> res = (AList.update k v acc, r4))))"
  by (auto split: option.splits list.splits)

lemma parse_value_Suc_object:
  "skip_ws s = CHR ''{'' # cs \<Longrightarrow>
   parse_value (Suc n) s =
     (case skip_ws cs of
        [] \<Rightarrow> None
      | d # r \<Rightarrow>
          if d = CHR ''}'' then Some (JObject [], r)
          else map_option (\<lambda>(kvs, rest). (JObject kvs, rest)) (parse_members n (d # r) []))"
  by simp

lemma parse_value_Suc_array:
  "skip_ws s = CHR ''['' # cs \<Longrightarrow>
   parse_value (Suc n) s =
     (case skip_ws cs of
        [] \<Rightarrow> None
      | d # r \<Rightarrow>
          if d = CHR '']'' then Some (JArray [], r)
          else map_option (\<lambda>(xs, rest). (JArray xs, rest)) (parse_elements n (d # r) []))"
  by simp

lemma parse_value_Suc_scalar:
  "skip_ws s = c # cs \<Longrightarrow> c \<noteq> CHR ''{'' \<Longrightarrow> c \<noteq> CHR ''['' \<Longrightarrow>
   parse_value (Suc n) s = parse_value (Suc 0) s"
  by (simp only: parse_value.simps(2) list.case if_False)

lemma parse_value_Suc_Nil: "skip_ws s = [] \<Longrightarrow> parse_value (Suc n) s = None"
  by simp

lemma parse_value_step:
  assumes m: "\<And>s acc r. parse_members n s acc = Some r \<Longrightarrow> parse_members (Suc n) s acc = Some r"
    and e: "\<And>s acc r. parse_elements n s acc = Some r \<Longrightarrow> parse_elements (Suc n) s acc = Some r"
    and a: "parse_value (Suc n) s = Some res"
  shows "parse_value (Suc (Suc n)) s = Some res"
proof (cases "skip_ws s")
  case Nil
  with a show ?thesis by (simp only: parse_value_Suc_Nil)
next
  case (Cons c cs)
  consider "c = CHR ''{''" | "c = CHR ''[''" | "c \<noteq> CHR ''{''" "c \<noteq> CHR ''[''" by blast
  then show ?thesis
  proof cases
    case 1
    with Cons have s: "skip_ws s = CHR ''{'' # cs" by simp
    show ?thesis
    proof (cases "skip_ws cs")
      case Nil
      with a show ?thesis by (simp only: parse_value_Suc_object [OF s] list.case)
    next
      case (Cons d r)
      show ?thesis
      proof (cases "d = CHR ''}''")
        case True
        with a Cons show ?thesis
          by (simp add: parse_value_Suc_object [OF s] del: parse_value.simps parse_members.simps)
      next
        case False
        with a Cons obtain kvs rest where "parse_members n (d # r) [] = Some (kvs, rest)"
          and "res = (JObject kvs, rest)"
          by (auto simp only: parse_value_Suc_object [OF s] list.case if_False map_option_eq_Some
                split: prod.splits)
        with m [of "d # r" "[]" "(kvs, rest)"] False Cons show ?thesis
          by (simp only: parse_value_Suc_object [OF s] list.case if_False option.map prod.case)
      qed
    qed
  next
    case 2
    with Cons have s: "skip_ws s = CHR ''['' # cs" by simp
    show ?thesis
    proof (cases "skip_ws cs")
      case Nil
      with a show ?thesis by (simp only: parse_value_Suc_array [OF s] list.case)
    next
      case (Cons d r)
      show ?thesis
      proof (cases "d = CHR '']''")
        case True
        with a Cons show ?thesis
          by (simp add: parse_value_Suc_array [OF s] del: parse_value.simps parse_elements.simps)
      next
        case False
        with a Cons obtain xs rest where "parse_elements n (d # r) [] = Some (xs, rest)"
          and "res = (JArray xs, rest)"
          by (auto simp only: parse_value_Suc_array [OF s] list.case if_False map_option_eq_Some
                split: prod.splits)
        with e [of "d # r" "[]" "(xs, rest)"] False Cons show ?thesis
          by (simp only: parse_value_Suc_array [OF s] list.case if_False option.map prod.case)
      qed
    qed
  next
    case 3
    from a show ?thesis
      by (simp only: parse_value_Suc_scalar [OF Cons 3, of "Suc n"] parse_value_Suc_scalar [OF Cons 3, of n])
  qed
qed

lemma parse_elements_step:
  assumes v: "\<And>s r. parse_value n s = Some r \<Longrightarrow> parse_value (Suc n) s = Some r"
    and e: "\<And>s acc r. parse_elements n s acc = Some r \<Longrightarrow> parse_elements (Suc n) s acc = Some r"
    and a: "parse_elements (Suc n) s acc = Some res"
  shows "parse_elements (Suc (Suc n)) s acc = Some res"
proof -
  from a [unfolded parse_elements_Suc] obtain x r d r' where "parse_value n s = Some (x, r)" and "skip_ws r = d # r'"
    and "(d = CHR '','' \<and> parse_elements n r' (acc @ [x]) = Some res)
           \<or> (d = CHR '']'' \<and> res = (acc @ [x], r'))"
    by blast
  then have "parse_value (Suc n) s = Some (x, r) \<and> skip_ws r = d # r'
        \<and> ((d = CHR '','' \<and> parse_elements (Suc n) r' (acc @ [x]) = Some res)
           \<or> (d = CHR '']'' \<and> res = (acc @ [x], r')))"
    using v e by blast
  then show ?thesis by (subst parse_elements_Suc) blast
qed

lemma parse_members_step:
  assumes v: "\<And>s r. parse_value n s = Some r \<Longrightarrow> parse_value (Suc n) s = Some r"
    and m: "\<And>s acc r. parse_members n s acc = Some r \<Longrightarrow> parse_members (Suc n) s acc = Some r"
    and a: "parse_members (Suc n) s acc = Some res"
  shows "parse_members (Suc (Suc n)) s acc = Some res"
proof -
  from a [unfolded parse_members_Suc] obtain r k r1 r2 x r3 d r4 where "skip_ws s = CHR 0x22 # r"
    and "parse_string r = Some (k, r1)" and "skip_ws r1 = CHR '':'' # r2"
    and "parse_value n r2 = Some (x, r3)" and "skip_ws r3 = d # r4"
    and "(d = CHR '','' \<and> parse_members n r4 (AList.update k x acc) = Some res)
           \<or> (d = CHR ''}'' \<and> res = (AList.update k x acc, r4))"
    by blast
  then have "skip_ws s = CHR 0x22 # r \<and> parse_string r = Some (k, r1)
        \<and> skip_ws r1 = CHR '':'' # r2
        \<and> parse_value (Suc n) r2 = Some (x, r3) \<and> skip_ws r3 = d # r4
        \<and> ((d = CHR '','' \<and> parse_members (Suc n) r4 (AList.update k x acc) = Some res)
           \<or> (d = CHR ''}'' \<and> res = (AList.update k x acc, r4)))"
    using v m by blast
  then show ?thesis by (subst parse_members_Suc) blast
qed

lemma parse_mono_Suc:
  "(\<forall>s r. parse_value n s = Some r \<longrightarrow> parse_value (Suc n) s = Some r)
   \<and> (\<forall>s acc r. parse_elements n s acc = Some r \<longrightarrow> parse_elements (Suc n) s acc = Some r)
   \<and> (\<forall>s acc r. parse_members n s acc = Some r \<longrightarrow> parse_members (Suc n) s acc = Some r)"
proof (induction n)
  case 0
  show ?case by simp
next
  case (Suc n)
  show ?case
  proof (intro conjI allI impI)
    fix s r assume "parse_value (Suc n) s = Some r"
    with Suc show "parse_value (Suc (Suc n)) s = Some r" by (intro parse_value_step) blast+
  next
    fix s acc r assume "parse_elements (Suc n) s acc = Some r"
    with Suc show "parse_elements (Suc (Suc n)) s acc = Some r"
      by (intro parse_elements_step) blast+
  next
    fix s acc r assume "parse_members (Suc n) s acc = Some r"
    with Suc show "parse_members (Suc (Suc n)) s acc = Some r"
      by (intro parse_members_step) blast+
  qed
qed

lemma parse_value_mono: "parse_value n s = Some r \<Longrightarrow> n \<le> m \<Longrightarrow> parse_value m s = Some r"
  by (induction m) (auto simp: le_Suc_eq parse_mono_Suc simp del: parse_value.simps)

lemma parse_elements_mono:
  "parse_elements n s acc = Some r \<Longrightarrow> n \<le> m \<Longrightarrow> parse_elements m s acc = Some r"
  by (induction m) (auto simp: le_Suc_eq parse_mono_Suc simp del: parse_elements.simps)

lemma parse_members_mono:
  "parse_members n s acc = Some r \<Longrightarrow> n \<le> m \<Longrightarrow> parse_members m s acc = Some r"
  by (induction m) (auto simp: le_Suc_eq parse_mono_Suc simp del: parse_members.simps)

lemma length_skip_ws: "length (skip_ws s) \<le> length s"
  by (simp add: skip_ws_def length_dropWhile_le)

lemma parse_chars_shorter: "parse_chars s = Some (us, rest) \<Longrightarrow> length rest < length s"
proof (induction s arbitrary: us rest rule: parse_chars.induct)
  case 1
  then show ?case by simp
next
  case (2 c cs)
  show ?case
  proof (cases "c = CHR 0x22")
    case True
    with "2.prems" show ?thesis by simp
  next
    case q: False
    show ?thesis
    proof (cases "c = CHR 0x5C")
      case False
      with q "2.prems" obtain us' where "parse_chars cs = Some (us', rest)"
        by (auto split: if_splits)
      from "2.IH"(3) [OF q False _ this] "2.prems" q False show ?thesis
        by (auto split: if_splits)
    next
      case True
      with q "2.prems" obtain e r where cs: "cs = e # r" by (cases cs) auto
      show ?thesis
      proof (cases "e = CHR ''u''")
        case u: True
        with q True cs "2.prems" obtain h us' where h: "hex4 (take 4 r) = Some h"
          and p: "parse_chars (drop 4 r) = Some (us', rest)"
          by (auto split: option.splits)
        from "2.IH"(1) [OF q True cs u h p] cs show ?thesis by simp
      next
        case u: False
        with q True cs "2.prems" obtain ch us' where h: "simple_escape e = Some ch"
          and p: "parse_chars r = Some (us', rest)"
          by (auto split: option.splits)
        from "2.IH"(2) [OF q True cs u h p] cs show ?thesis by simp
      qed
    qed
  qed
qed

lemma parse_string_shorter: "parse_string s = Some (k, rest) \<Longrightarrow> length rest < length s"
  by (auto simp: parse_string_def dest: parse_chars_shorter)

lemma parse_number_shorter: "parse_number s = Some (v, rest) \<Longrightarrow> length rest < length s"
proof -
  assume a: "parse_number s = Some (v, rest)"
  define neg where "neg = (s \<noteq> [] \<and> hd s = CHR ''-'')"
  define s1 where "s1 = (if neg then tl s else s)"
  define d where "d = takeWhile is_digit s1"
  define ip where "ip = (if d \<noteq> [] \<and> hd d = CHR ''0'' then ''0'' else d)"
  define s2 where "s2 = drop (length ip) s1"
  define has_frac where "has_frac = (s2 \<noteq> [] \<and> hd s2 = CHR ''.'')"
  define f where "f = (if has_frac then takeWhile is_digit (tl s2) else [])"
  define s3 where "s3 = (if has_frac then drop (length f) (tl s2) else s2)"
  define has_exp where "has_exp = (s3 \<noteq> [] \<and> (hd s3 = CHR ''e'' \<or> hd s3 = CHR ''E''))"
  define s4 where "s4 = (if has_exp then tl s3 else s3)"
  define s5 where "s5 = (if has_exp \<and> s4 \<noteq> [] \<and> (hd s4 = CHR ''-'' \<or> hd s4 = CHR ''+'') then tl s4 else s4)"
  define x where "x = (if has_exp then takeWhile is_digit s5 else [])"
  define s6 where "s6 = (if has_exp then drop (length x) s5 else s3)"
  define ds where "ds = ip @ f"
  define sig where "sig = rev (dropWhile (\<lambda>c. c = CHR ''0'') (rev ds))"
  have "parse_number s =
          (if ip = [] \<or> (has_frac \<and> f = []) \<or> (has_exp \<and> x = []) then None
           else if digits_value sig = 0 then Some (JNumber 0 0, s6)
           else Some (JNumber (if neg then - digits_value sig else digits_value sig)
                        ((if has_exp \<and> s4 \<noteq> [] \<and> hd s4 = CHR ''-''
                          then - digits_value x else digits_value x)
                         - int (length f) + int (length ds - length sig)), s6))"
    unfolding parse_number_def Let_def neg_def s1_def d_def ip_def s2_def has_frac_def f_def
      s3_def has_exp_def s4_def s5_def x_def s6_def ds_def sig_def
    by (rule refl)
  with a have ip: "ip \<noteq> []" and rest: "rest = s6"
    by (auto split: if_splits)
  have "length ip \<le> length d" by (auto simp: ip_def Suc_leI)
  also have "\<dots> \<le> length s1" by (simp add: d_def length_takeWhile_le)
  finally have "length ip \<le> length s1" .
  moreover from ip have "0 < length ip" by simp
  ultimately have l2: "length s2 < length s1" unfolding s2_def length_drop by linarith
  have l1: "length s1 \<le> length s" by (simp add: s1_def)
  have l3: "length s3 \<le> length s2" by (simp add: s3_def)
  have l4: "length s4 \<le> length s3" by (simp add: s4_def)
  have l5: "length s5 \<le> length s4" by (simp add: s5_def)
  have l6: "length s6 \<le> length s3" using l4 l5 by (auto simp: s6_def)
  from l1 l2 l3 l6 rest show ?thesis by simp
qed

lemma parse_scalar_shorter:
  assumes "skip_ws s = c # cs" and "c \<noteq> CHR ''{''" and "c \<noteq> CHR ''[''"
    and "parse_value (Suc 0) s = Some (v, rest)"
  shows "length rest < length s"
proof -
  have "length rest < length (c # cs)"
    using assms
    by (auto split: if_splits dest!: parse_string_shorter parse_number_shorter)
  with length_skip_ws [of s] assms(1) show ?thesis by simp
qed

lemma length_skip_ws_Cons: "skip_ws s = c # cs \<Longrightarrow> length cs < length s"
  using length_skip_ws [of s] by simp

lemma bound_value_step:
  assumes e: "\<And>s acc xs rest. parse_elements n s acc = Some (xs, rest) \<Longrightarrow>
                length rest < length s
                \<and> (\<exists>m. parse_elements m s acc = Some (xs, rest) \<and> m + 2 \<le> 2 * (length s - length rest))"
    and m: "\<And>s acc kvs rest. parse_members n s acc = Some (kvs, rest) \<Longrightarrow>
                length rest < length s
                \<and> (\<exists>m. parse_members m s acc = Some (kvs, rest) \<and> m + 2 \<le> 2 * (length s - length rest))"
    and a: "parse_value (Suc n) s = Some (v, rest)"
  shows "length rest < length s
         \<and> (\<exists>m. parse_value m s = Some (v, rest) \<and> m + 1 \<le> 2 * (length s - length rest))"
proof (cases "skip_ws s")
  case Nil
  with a show ?thesis by (simp add: parse_value_Suc_Nil del: parse_value.simps)
next
  case (Cons c cs)
  note cs = length_skip_ws_Cons [OF Cons]
  consider "c = CHR ''{''" | "c = CHR ''[''" | "c \<noteq> CHR ''{''" "c \<noteq> CHR ''[''" by blast
  then show ?thesis
  proof cases
    case 1
    with Cons have s: "skip_ws s = CHR ''{'' # cs" by simp
    show ?thesis
    proof (cases "skip_ws cs")
      case Nil
      with a show ?thesis
        by (simp add: parse_value_Suc_object [OF s] del: parse_value.simps parse_members.simps)
    next
      case (Cons d r)
      note r = length_skip_ws_Cons [OF Cons]
      have dr: "length (d # r) \<le> length cs" using length_skip_ws [of cs] Cons by simp
      show ?thesis
      proof (cases "d = CHR ''}''")
        case True
        with a Cons have "v = JObject []" "rest = r"
          by (simp_all add: parse_value_Suc_object [OF s] del: parse_value.simps parse_members.simps)
        moreover from True Cons have "parse_value (Suc 0) s = Some (JObject [], r)"
          by (simp add: parse_value_Suc_object [OF s] del: parse_value.simps parse_members.simps)
        ultimately show ?thesis using cs r by (intro conjI exI [of _ "Suc 0"]) auto
      next
        case False
        with a Cons obtain kvs where p: "parse_members n (d # r) [] = Some (kvs, rest)"
          and v: "v = JObject kvs"
          by (auto simp add: parse_value_Suc_object [OF s] simp del: parse_value.simps parse_members.simps)
        from m [OF p] obtain k where l: "length rest < length (d # r)"
          and k: "parse_members k (d # r) [] = Some (kvs, rest)"
          and b: "k + 2 \<le> 2 * (length (d # r) - length rest)" by blast
        from k False Cons v have "parse_value (Suc k) s = Some (v, rest)"
          by (simp add: parse_value_Suc_object [OF s] del: parse_value.simps parse_members.simps)
        moreover from l dr cs b have "length rest < length s"
          and "Suc k + 1 \<le> 2 * (length s - length rest)" by linarith+
        ultimately show ?thesis by blast
      qed
    qed
  next
    case 2
    with Cons have s: "skip_ws s = CHR ''['' # cs" by simp
    show ?thesis
    proof (cases "skip_ws cs")
      case Nil
      with a show ?thesis
        by (simp add: parse_value_Suc_array [OF s] del: parse_value.simps parse_elements.simps)
    next
      case (Cons d r)
      note r = length_skip_ws_Cons [OF Cons]
      have dr: "length (d # r) \<le> length cs" using length_skip_ws [of cs] Cons by simp
      show ?thesis
      proof (cases "d = CHR '']''")
        case True
        with a Cons have "v = JArray []" "rest = r"
          by (simp_all add: parse_value_Suc_array [OF s] del: parse_value.simps parse_elements.simps)
        moreover from True Cons have "parse_value (Suc 0) s = Some (JArray [], r)"
          by (simp add: parse_value_Suc_array [OF s] del: parse_value.simps parse_elements.simps)
        ultimately show ?thesis using cs r by (intro conjI exI [of _ "Suc 0"]) auto
      next
        case False
        with a Cons obtain xs where p: "parse_elements n (d # r) [] = Some (xs, rest)"
          and v: "v = JArray xs"
          by (auto simp add: parse_value_Suc_array [OF s] simp del: parse_value.simps parse_elements.simps)
        from e [OF p] obtain k where l: "length rest < length (d # r)"
          and k: "parse_elements k (d # r) [] = Some (xs, rest)"
          and b: "k + 2 \<le> 2 * (length (d # r) - length rest)" by blast
        from k False Cons v have "parse_value (Suc k) s = Some (v, rest)"
          by (simp add: parse_value_Suc_array [OF s] del: parse_value.simps parse_elements.simps)
        moreover from l dr cs b have "length rest < length s"
          and "Suc k + 1 \<le> 2 * (length s - length rest)" by linarith+
        ultimately show ?thesis by blast
      qed
    qed
  next
    case 3
    from a have p: "parse_value (Suc 0) s = Some (v, rest)"
      by (simp only: parse_value_Suc_scalar [OF Cons 3, of n])
    from parse_scalar_shorter [OF Cons 3 p] have l: "length rest < length s" .
    then have "Suc 0 + 1 \<le> 2 * (length s - length rest)" by linarith
    with p l show ?thesis by blast
  qed
qed

lemma bound_elements_step:
  assumes v: "\<And>s x rest. parse_value n s = Some (x, rest) \<Longrightarrow>
                length rest < length s
                \<and> (\<exists>m. parse_value m s = Some (x, rest) \<and> m + 1 \<le> 2 * (length s - length rest))"
    and e: "\<And>s acc xs rest. parse_elements n s acc = Some (xs, rest) \<Longrightarrow>
                length rest < length s
                \<and> (\<exists>m. parse_elements m s acc = Some (xs, rest) \<and> m + 2 \<le> 2 * (length s - length rest))"
    and a: "parse_elements (Suc n) s acc = Some (xs, rest)"
  shows "length rest < length s
         \<and> (\<exists>m. parse_elements m s acc = Some (xs, rest) \<and> m + 2 \<le> 2 * (length s - length rest))"
proof -
  from a [unfolded parse_elements_Suc] obtain x r d r' where p: "parse_value n s = Some (x, r)"
    and w: "skip_ws r = d # r'"
    and c: "(d = CHR '','' \<and> parse_elements n r' (acc @ [x]) = Some (xs, rest))
           \<or> (d = CHR '']'' \<and> (xs, rest) = (acc @ [x], r'))"
    by blast
  from v [OF p] obtain mv where l1: "length r < length s"
    and pv: "parse_value mv s = Some (x, r)" and b1: "mv + 1 \<le> 2 * (length s - length r)"
    by blast
  note l2 = length_skip_ws_Cons [OF w]
  from c show ?thesis
  proof
    assume "d = CHR '']'' \<and> (xs, rest) = (acc @ [x], r')"
    with pv w have "parse_elements (Suc mv) s acc = Some (xs, rest)"
      by (subst parse_elements_Suc) auto
    moreover from \<open>d = CHR '']'' \<and> (xs, rest) = (acc @ [x], r')\<close> l1 l2 b1
    have "length rest < length s" and "Suc mv + 2 \<le> 2 * (length s - length rest)"
      by auto
    ultimately show ?thesis by blast
  next
    assume c': "d = CHR '','' \<and> parse_elements n r' (acc @ [x]) = Some (xs, rest)"
    with e obtain me where l3: "length rest < length r'"
      and pe: "parse_elements me r' (acc @ [x]) = Some (xs, rest)"
      and b2: "me + 2 \<le> 2 * (length r' - length rest)" by blast
    from parse_value_mono [OF pv, of "max mv me"] parse_elements_mono [OF pe, of "max mv me"] w c'
    have "parse_elements (Suc (max mv me)) s acc = Some (xs, rest)"
      by (subst parse_elements_Suc) auto
    moreover from l1 l2 l3 b1 b2
    have "length rest < length s" and "Suc (max mv me) + 2 \<le> 2 * (length s - length rest)"
      by (auto simp: max_def)
    ultimately show ?thesis by blast
  qed
qed

lemma bound_members_step:
  assumes v: "\<And>s x rest. parse_value n s = Some (x, rest) \<Longrightarrow>
                length rest < length s
                \<and> (\<exists>m. parse_value m s = Some (x, rest) \<and> m + 1 \<le> 2 * (length s - length rest))"
    and m: "\<And>s acc kvs rest. parse_members n s acc = Some (kvs, rest) \<Longrightarrow>
                length rest < length s
                \<and> (\<exists>m. parse_members m s acc = Some (kvs, rest) \<and> m + 2 \<le> 2 * (length s - length rest))"
    and a: "parse_members (Suc n) s acc = Some (kvs, rest)"
  shows "length rest < length s
         \<and> (\<exists>m. parse_members m s acc = Some (kvs, rest) \<and> m + 2 \<le> 2 * (length s - length rest))"
proof -
  from a [unfolded parse_members_Suc] obtain r k r1 r2 x r3 d r4
    where w0: "skip_ws s = CHR 0x22 # r" and ps: "parse_string r = Some (k, r1)"
      and w1: "skip_ws r1 = CHR '':'' # r2" and p: "parse_value n r2 = Some (x, r3)"
      and w3: "skip_ws r3 = d # r4"
      and c: "(d = CHR '','' \<and> parse_members n r4 (AList.update k x acc) = Some (kvs, rest))
           \<or> (d = CHR ''}'' \<and> (kvs, rest) = (AList.update k x acc, r4))"
    by blast
  from v [OF p] obtain mv where l3: "length r3 < length r2"
    and pv: "parse_value mv r2 = Some (x, r3)" and b1: "mv + 1 \<le> 2 * (length r2 - length r3)"
    by blast
  note l0 = length_skip_ws_Cons [OF w0]
  note l1 = parse_string_shorter [OF ps]
  note l2 = length_skip_ws_Cons [OF w1]
  note l4 = length_skip_ws_Cons [OF w3]
  from c show ?thesis
  proof
    assume c': "d = CHR ''}'' \<and> (kvs, rest) = (AList.update k x acc, r4)"
    with pv w0 ps w1 w3 have "parse_members (Suc mv) s acc = Some (kvs, rest)"
      by (subst parse_members_Suc) auto
    moreover from c' l0 l1 l2 l3 l4 b1
    have "length rest < length s" and "Suc mv + 2 \<le> 2 * (length s - length rest)"
      by auto
    ultimately show ?thesis by blast
  next
    assume c': "d = CHR '','' \<and> parse_members n r4 (AList.update k x acc) = Some (kvs, rest)"
    with m obtain mm where l5: "length rest < length r4"
      and pm: "parse_members mm r4 (AList.update k x acc) = Some (kvs, rest)"
      and b2: "mm + 2 \<le> 2 * (length r4 - length rest)" by blast
    from parse_value_mono [OF pv, of "max mv mm"] parse_members_mono [OF pm, of "max mv mm"]
      w0 ps w1 w3 c'
    have "parse_members (Suc (max mv mm)) s acc = Some (kvs, rest)"
      by (subst parse_members_Suc) auto
    moreover from l0 l1 l2 l3 l4 l5 b1 b2
    have "length rest < length s" and "Suc (max mv mm) + 2 \<le> 2 * (length s - length rest)"
      by (auto simp: max_def)
    ultimately show ?thesis by blast
  qed
qed

lemma parse_bound:
  "(\<forall>s x rest. parse_value n s = Some (x, rest) \<longrightarrow>
      length rest < length s
      \<and> (\<exists>m. parse_value m s = Some (x, rest) \<and> m + 1 \<le> 2 * (length s - length rest)))
   \<and> (\<forall>s acc xs rest. parse_elements n s acc = Some (xs, rest) \<longrightarrow>
      length rest < length s
      \<and> (\<exists>m. parse_elements m s acc = Some (xs, rest) \<and> m + 2 \<le> 2 * (length s - length rest)))
   \<and> (\<forall>s acc kvs rest. parse_members n s acc = Some (kvs, rest) \<longrightarrow>
      length rest < length s
      \<and> (\<exists>m. parse_members m s acc = Some (kvs, rest) \<and> m + 2 \<le> 2 * (length s - length rest)))"
proof (induction n)
  case 0
  show ?case by simp
next
  case (Suc n)
  note v = Suc [THEN conjunct1, rule_format]
  note e = Suc [THEN conjunct2, THEN conjunct1, rule_format]
  note m = Suc [THEN conjunct2, THEN conjunct2, rule_format]
  show ?case
  proof (intro conjI allI impI)
    fix s x rest assume a: "parse_value (Suc n) s = Some (x, rest)"
    from bound_value_step [OF e m a]
    show "length rest < length s"
      and "\<exists>m. parse_value m s = Some (x, rest) \<and> m + 1 \<le> 2 * (length s - length rest)"
      by simp_all
  next
    fix s acc xs rest assume a: "parse_elements (Suc n) s acc = Some (xs, rest)"
    from bound_elements_step [OF v e a]
    show "length rest < length s"
      and "\<exists>m. parse_elements m s acc = Some (xs, rest) \<and> m + 2 \<le> 2 * (length s - length rest)"
      by simp_all
  next
    fix s acc kvs rest assume a: "parse_members (Suc n) s acc = Some (kvs, rest)"
    from bound_members_step [OF v m a]
    show "length rest < length s"
      and "\<exists>m. parse_members m s acc = Some (kvs, rest) \<and> m + 2 \<le> 2 * (length s - length rest)"
      by simp_all
  qed
qed

lemma parse_value_fuel:
  assumes "parse_value n s = Some (x, rest)"
  shows "parse_value (2 * length s + 2) s = Some (x, rest)"
proof -
  from parse_bound [of n, THEN conjunct1, rule_format, OF assms]
  obtain m where p: "parse_value m s = Some (x, rest)"
    and b: "m + 1 \<le> 2 * (length s - length rest)" by blast
  from b have "m \<le> 2 * length s + 2" by linarith
  with p show ?thesis by (rule parse_value_mono)
qed

lemma JSON_parse_fuel:
  "JSON_parse s = Some x \<longleftrightarrow> (\<exists>n rest. parse_value n s = Some (x, rest) \<and> skip_ws rest = [])"
proof
  assume "JSON_parse s = Some x"
  then have "\<exists>rest. parse_value (2 * length s + 2) s = Some (x, rest) \<and> skip_ws rest = []"
    unfolding JSON_parse_def by (auto simp del: parse_value.simps split: option.splits if_splits)
  then show "\<exists>n rest. parse_value n s = Some (x, rest) \<and> skip_ws rest = []" by blast
next
  assume "\<exists>n rest. parse_value n s = Some (x, rest) \<and> skip_ws rest = []"
  then obtain n rest where "parse_value n s = Some (x, rest)" and w: "skip_ws rest = []" by blast
  from parse_value_fuel [OF this(1)] w show "JSON_parse s = Some x"
    unfolding JSON_parse_def by (simp del: parse_value.simps)
qed

section \<open>Properties of the constructor\<close>

text \<open>
  Claim C2, as amended. The rate ceiling never makes construction fail: whether the
  constructor throws depends on the token alone. A configured ceiling of zero, like an
  absent one, is replaced by the default 10, so that no client has a ceiling of zero; any
  other ceiling, a negative one included, is stored as configured.
\<close>

theorem constructor_rate_ceiling:
  "(constructor config env = Inr c \<longrightarrow>
      rateLimit c \<noteq> 0 \<and>
      rateLimit c = (case Option.bind config cfg_rateLimit of
                       None \<Rightarrow> 10 | Some r \<Rightarrow> if r = 0 then 10 else r))
   \<and> ((\<exists>e. constructor config env = Inl e) \<longleftrightarrow>
        str_or (Option.bind config cfg_token) env \<in> {None, Some []})"
  by (auto simp: constructor_def num_or_def split: option.splits if_splits)

text \<open>The amended claim at a configuration with the ceiling \<open>-5\<close>.\<close>

theorem constructor_rate_ceiling_witness:
  "constructor (Some \<lparr>cfg_token = Some ''t'', cfg_baseURL = None, cfg_rateLimit = Some (- 5)\<rparr>) None
     = Inr \<lparr>token = ''t'', baseURL = ''https://api.github.com'', rateLimit = - 5,
            lastRequestTime = 0, rateLimitInfo = None\<rparr>
   \<and> rateLimit \<lparr>token = ''t'', baseURL = ''https://api.github.com'', rateLimit = - 5,
            lastRequestTime = 0, rateLimitInfo = None\<rparr> \<noteq> 0"
  using constructor_rate_ceiling
    [of "Some \<lparr>cfg_token = Some ''t'', cfg_baseURL = None, cfg_rateLimit = Some (- 5)\<rparr>" None
        "\<lparr>token = ''t'', baseURL = ''https://api.github.com'', rateLimit = - 5,
            lastRequestTime = 0, rateLimitInfo = None\<rparr>"]
  by (simp add: constructor_def str_or_def str_or_default_def num_or_def)

text \<open>
  Claim C2 as stated fails: with a token, a ceiling of zero gives a client with the
  ceiling 10, and a ceiling of \<open>-5\<close> gives a client with the ceiling \<open>-5\<close>; neither
  construction throws.
\<close>

theorem constructor_rate_ceiling_counterexample:
  "constructor (Some \<lparr>cfg_token = Some ''t'', cfg_baseURL = None, cfg_rateLimit = Some 0\<rparr>) None
     = Inr \<lparr>token = ''t'', baseURL = ''https://api.github.com'', rateLimit = 10,
            lastRequestTime = 0, rateLimitInfo = None\<rparr>
   \<and> constructor (Some \<lparr>cfg_token = Some ''t'', cfg_baseURL = None, cfg_rateLimit = Some (- 5)\<rparr>) None
     = Inr \<lparr>token = ''t'', baseURL = ''https://api.github.com'', rateLimit = - 5,
            lastRequestTime = 0, rateLimitInfo = None\<rparr>"
  by (simp add: constructor_def str_or_def str_or_default_def num_or_def)

text \<open>
  Claim C7. With no token in the configuration and none in the environment, the
  constructor throws the error that asks for a token. It returns no client, so no
  operation can be called; and a tool call that has to build the client ends with that
  error, hands nothing to \<open>fetch\<close> and leaves \<open>_client\<close> empty.
\<close>

theorem constructor_without_token:
  assumes "Option.bind config cfg_token = None" and "env = None"
  shows "constructor config env = Inl (Error token_required)
         \<and> tool_call env None w op = (None, None, Inl (Error token_required))"
  using assms by (simp add: constructor_def str_or_def tool_call_def getClient_def)

text \<open>Claim C7 at a configuration that sets everything but the token.\<close>

theorem constructor_without_token_witness:
  "constructor (Some \<lparr>cfg_token = None, cfg_baseURL = Some ''http://localhost'', cfg_rateLimit = Some 5\<rparr>) None
     = Inl (Error ''GitHub token is required. Set GITHUB_TOKEN environment variable.'')
   \<and> tool_call None None \<lparr>now1 = 0, now2 = 0, fetch = (\<lambda>_. None)\<rparr> (GetRepo ''o'' ''r'')
     = (None, None, Inl (Error ''GitHub token is required. Set GITHUB_TOKEN environment variable.''))"
  using constructor_without_token
    [of "Some \<lparr>cfg_token = None, cfg_baseURL = Some ''http://localhost'', cfg_rateLimit = Some 5\<rparr>" None
        "\<lparr>now1 = 0, now2 = 0, fetch = (\<lambda>_. None)\<rparr>" "GetRepo ''o'' ''r''"]
  by (simp add: token_required_def)

text \<open>
  Claim C10. A configured token that is the empty string is treated as an absent one:
  the constructor gives the same result as without it. It then takes the token of the
  environment, and throws exactly when the environment has none (an empty value there
  counts as none too). A client that was constructed never holds the empty token.
\<close>

theorem empty_token_is_absent:
  "(cfg_token cfg = Some [] \<longrightarrow>
      constructor (Some cfg) env = constructor (Some (cfg\<lparr>cfg_token := None\<rparr>)) env
      \<and> (constructor (Some cfg) env = Inl (Error token_required) \<longleftrightarrow> env = None \<or> env = Some [])
      \<and> (\<forall>t. env = Some t \<and> t \<noteq> [] \<longrightarrow> (\<exists>c. constructor (Some cfg) env = Inr c \<and> token c = t)))
   \<and> (constructor config env = Inr c \<longrightarrow> token c \<noteq> [])"
  by (auto simp: constructor_def str_or_def split: option.splits if_splits)

text \<open>Claim C10 at an empty configured token, with and without a token in the environment.\<close>

theorem empty_token_is_absent_witness:
  "constructor (Some \<lparr>cfg_token = Some [], cfg_baseURL = None, cfg_rateLimit = None\<rparr>) (Some ''env-token'')
     = Inr \<lparr>token = ''env-token'', baseURL = ''https://api.github.com'', rateLimit = 10,
            lastRequestTime = 0, rateLimitInfo = None\<rparr>
   \<and> constructor (Some \<lparr>cfg_token = Some [], cfg_baseURL = None, cfg_rateLimit = None\<rparr>) None
     = Inl (Error token_required)
   \<and> token \<lparr>token = ''env-token'', baseURL = ''https://api.github.com'', rateLimit = 10,
            lastRequestTime = 0, rateLimitInfo = None\<rparr> \<noteq> []"
  using empty_token_is_absent
    [of "\<lparr>cfg_token = Some [], cfg_baseURL = None, cfg_rateLimit = None\<rparr>" "Some ''env-token''"
        "Some \<lparr>cfg_token = Some [], cfg_baseURL = None, cfg_rateLimit = None\<rparr>"
        "\<lparr>token = ''env-token'', baseURL = ''https://api.github.com'', rateLimit = 10,
            lastRequestTime = 0, rateLimitInfo = None\<rparr>"]
    empty_token_is_absent
    [of "\<lparr>cfg_token = Some [], cfg_baseURL = None, cfg_rateLimit = None\<rparr>" None]
  by (simp add: constructor_def str_or_def str_or_default_def num_or_def)

section \<open>Properties of the rate limiter\<close>

subsection \<open>What a call does to the client\<close>

lemma request_throttle:
  "lastRequestTime (client_after (request c w meth path b h)) = now2 w"
  "rateLimit (client_after (request c w meth path b h)) = rateLimit c"
  "token (client_after (request c w meth path b h)) = token c"
  "baseURL (client_after (request c w meth path b h)) = baseURL c"
  "suspended (request c w meth path b h) = suspension c (now1 w)"
  by (auto simp: request_def rateLimitDelay_def extract_rateLimitInfo_def Let_def
           split: option.splits prod.splits)

lemma invoke_request: "\<exists>meth path b. invoke c w op = request c w meth path b None"
  by (cases op)
     (auto simp: listUserRepos_def getRepo_def createRepo_def listIssues_def getIssue_def
        createIssue_def updateIssue_def listPullRequests_def getPullRequest_def
        createPullRequest_def listBranches_def getFileContent_def searchRepositories_def
        searchCode_def listCommits_def)

lemma invoke_throttle:
  "lastRequestTime (client_after (invoke c w op)) = now2 w"
  "rateLimit (client_after (invoke c w op)) = rateLimit c"
  "token (client_after (invoke c w op)) = token c"
  "baseURL (client_after (invoke c w op)) = baseURL c"
  "suspended (invoke c w op) = suspension c (now1 w)"
  using invoke_request [of c w op] by (auto simp: request_throttle)

lemma suspension_cases:
  "rateLimit c \<noteq> 0 \<Longrightarrow>
   suspension c now =
     (if of_int (now - lastRequestTime c) < 1000 / rateLimit c
      then Some (Ms (1000 / rateLimit c - of_int (now - lastRequestTime c))) else None)"
  by (simp add: suspension_def minDelay_def Let_def)

lemma honoured_step:
  assumes "rateLimit c \<noteq> 0" and "timer_honoured now (suspension c now) now'"
  shows "1000 / rateLimit c \<le> of_int now' - of_int (lastRequestTime c)"
proof (cases "of_int (now - lastRequestTime c) < 1000 / rateLimit c")
  case True
  with assms have "of_int now + (1000 / rateLimit c - of_int (now - lastRequestTime c)) \<le> (of_int now' :: rat)"
    by (simp add: suspension_cases timer_honoured_def)
  then show ?thesis by simp
next
  case False
  with assms have "now \<le> now'" by (simp add: suspension_cases timer_honoured_def)
  then have "(of_int now :: rat) \<le> of_int now'" by simp
  with False show ?thesis by simp
qed

lemma dispatch_times_Cons:
  "dispatch_times c (call # calls) =
     now2 (fst call) # dispatch_times (client_after (invoke c (fst call) (snd call))) calls"
  by (simp add: dispatch_times_def Let_def invoke_throttle)

lemma dispatch_times_Nil: "dispatch_times c [] = []"
  by (simp add: dispatch_times_def)

lemma length_dispatch_times: "length (dispatch_times c calls) = length calls"
  by (induction calls arbitrary: c) (simp_all add: dispatch_times_Nil dispatch_times_Cons)

lemma dispatch_times_readings: "dispatch_times c calls = map (\<lambda>call. now2 (fst call)) calls"
  by (induction calls arbitrary: c) (simp_all add: dispatch_times_Nil dispatch_times_Cons)

lemma spacing_run:
  assumes "rateLimit c \<noteq> 0" and "honoured_run c calls" and "i < length calls"
  shows "1000 / rateLimit c \<le>
           of_int ((lastRequestTime c # dispatch_times c calls) ! Suc i)
             - of_int ((lastRequestTime c # dispatch_times c calls) ! i)"
  using assms
proof (induction calls arbitrary: c i)
  case Nil
  then show ?case by simp
next
  case (Cons call calls)
  let ?c' = "client_after (invoke c (fst call) (snd call))"
  from Cons.prems have h: "timer_honoured (now1 (fst call)) (suspension c (now1 (fst call))) (now2 (fst call))"
    and r: "honoured_run ?c' calls" by simp_all
  have c': "rateLimit ?c' = rateLimit c" "lastRequestTime ?c' = now2 (fst call)"
    by (simp_all add: invoke_throttle)
  show ?case
  proof (cases i)
    case 0
    with honoured_step [OF Cons.prems(1) h] show ?thesis by (simp add: dispatch_times_Cons)
  next
    case (Suc j)
    with Cons.prems have "j < length calls" by simp
    from Cons.IH [OF _ r this] Cons.prems(1) c' Suc show ?thesis
      by (simp add: dispatch_times_Cons)
  qed
qed

lemma spaced_trans:
  fixes d :: rat
  assumes "\<And>k. k < n \<Longrightarrow> d \<le> of_int (ts ! Suc k) - of_int (ts ! k)"
    and "i \<le> j" and "j \<le> n"
  shows "of_nat (j - i) * d \<le> of_int (ts ! j) - of_int (ts ! i)"
  using assms(2,3)
proof (induction j)
  case 0
  then show ?case by simp
next
  case (Suc j)
  show ?case
  proof (cases "i = Suc j")
    case True
    then show ?thesis by simp
  next
    case False
    with Suc.prems have ij: "i \<le> j" and j: "j < n" by simp_all
    from Suc.IH [OF ij] j have a: "of_nat (j - i) * d \<le> of_int (ts ! j) - of_int (ts ! i)"
      by simp
    have b: "d \<le> of_int (ts ! Suc j) - of_int (ts ! j)"
      by (rule assms(1) [OF j])
    from ij have "(of_nat (Suc j - i) :: rat) * d = of_nat (j - i) * d + d"
      by (simp add: Suc_diff_le distrib_right)
    with a b show ?thesis by linarith
  qed
qed

lemma spacing_run_trans:
  assumes "rateLimit c \<noteq> 0" and "honoured_run c calls" and "i \<le> j" and "j \<le> length calls"
  shows "of_nat (j - i) * (1000 / rateLimit c) \<le>
           of_int ((lastRequestTime c # dispatch_times c calls) ! j)
             - of_int ((lastRequestTime c # dispatch_times c calls) ! i)"
proof (rule spaced_trans [where n = "length calls"])
  fix k assume "k < length calls"
  then show "1000 / rateLimit c \<le>
           of_int ((lastRequestTime c # dispatch_times c calls) ! Suc k)
             - of_int ((lastRequestTime c # dispatch_times c calls) ! k)"
    by (rule spacing_run [OF assms(1,2)])
qed (rule assms)+

lemma truncated_step:
  assumes "rateLimit c \<noteq> 0" and "timer_truncated now (suspension c now) now'"
  shows "of_int \<lfloor>1000 / rateLimit c\<rfloor> \<le> (of_int now' :: rat) - of_int (lastRequestTime c)"
proof -
  let ?d = "1000 / rateLimit c"
  have "\<lfloor>?d\<rfloor> \<le> now' - lastRequestTime c"
  proof (cases "of_int (now - lastRequestTime c) < ?d")
    case True
    with assms have "now + \<lfloor>?d - of_int (now - lastRequestTime c)\<rfloor> \<le> now'"
      by (simp add: suspension_cases timer_truncated_def)
    moreover have "\<lfloor>?d - of_int (now - lastRequestTime c)\<rfloor> = \<lfloor>?d\<rfloor> - (now - lastRequestTime c)"
      by (rule floor_diff_of_int)
    ultimately show ?thesis by linarith
  next
    case False
    with assms have a: "now \<le> now'" by (simp add: suspension_cases timer_truncated_def)
    from False have "?d \<le> of_int (now - lastRequestTime c)" by simp
    then have "\<lfloor>?d\<rfloor> \<le> now - lastRequestTime c" by (simp add: floor_le_iff)
    with a show ?thesis by linarith
  qed
  then have "(of_int \<lfloor>?d\<rfloor> :: rat) \<le> of_int (now' - lastRequestTime c)"
    by (simp only: of_int_le_iff)
  then show ?thesis by simp
qed

lemma spacing_truncated:
  assumes "rateLimit c \<noteq> 0" and "truncated_run c calls" and "i < length calls"
  shows "of_int \<lfloor>1000 / rateLimit c\<rfloor> \<le>
           (of_int ((lastRequestTime c # dispatch_times c calls) ! Suc i) :: rat)
             - of_int ((lastRequestTime c # dispatch_times c calls) ! i)"
  using assms
proof (induction calls arbitrary: c i)
  case Nil
  then show ?case by simp
next
  case (Cons call calls)
  let ?c' = "client_after (invoke c (fst call) (snd call))"
  from Cons.prems have h: "timer_truncated (now1 (fst call)) (suspension c (now1 (fst call))) (now2 (fst call))"
    and r: "truncated_run ?c' calls" by simp_all
  have c': "rateLimit ?c' = rateLimit c" "lastRequestTime ?c' = now2 (fst call)"
    by (simp_all add: invoke_throttle)
  show ?case
  proof (cases i)
    case 0
    with truncated_step [OF Cons.prems(1) h] show ?thesis by (simp add: dispatch_times_Cons)
  next
    case (Suc j)
    with Cons.prems have "j < length calls" by simp
    from Cons.IH [OF _ r this] Cons.prems(1) c' Suc show ?thesis
      by (simp add: dispatch_times_Cons)
  qed
qed

lemma spacing_truncated_trans:
  assumes "rateLimit c \<noteq> 0" and "truncated_run c calls" and "i \<le> j" and "j \<le> length calls"
  shows "of_nat (j - i) * of_int \<lfloor>1000 / rateLimit c\<rfloor> \<le>
           (of_int ((lastRequestTime c # dispatch_times c calls) ! j) :: rat)
             - of_int ((lastRequestTime c # dispatch_times c calls) ! i)"
proof (rule spaced_trans [where n = "length calls"])
  fix k assume "k < length calls"
  then show "of_int \<lfloor>1000 / rateLimit c\<rfloor> \<le>
           (of_int ((lastRequestTime c # dispatch_times c calls) ! Suc k) :: rat)
             - of_int ((lastRequestTime c # dispatch_times c calls) ! k)"
    by (rule spacing_truncated [OF assms(1,2)])
qed (rule assms)+

lemma sorted_readings:
  "sorted (t # clock_readings calls) \<Longrightarrow> sorted (t # map (\<lambda>call. now2 (fst call)) calls)"
proof (induction calls arbitrary: t)
  case Nil
  then show ?case by simp
next
  case (Cons call calls)
  from Cons.prems have "t \<le> now2 (fst call)" and "sorted (now2 (fst call) # clock_readings calls)"
    by (simp_all add: clock_readings_def)
  with Cons.IH [of "now2 (fst call)"] show ?case by auto
qed

lemma sorted_honoured:
  assumes "0 < rateLimit c" and "honoured_run c calls"
  shows "sorted (lastRequestTime c # dispatch_times c calls)"
proof (subst sorted_iff_nth_Suc, intro allI impI)
  fix i assume "Suc i < length (lastRequestTime c # dispatch_times c calls)"
  then have i: "i < length calls" by (simp add: length_dispatch_times)
  from assms(1) have "rateLimit c \<noteq> 0" and pos: "0 < 1000 / rateLimit c" by simp_all
  from spacing_run [OF this(1) assms(2) i] pos
  have "(of_int ((lastRequestTime c # dispatch_times c calls) ! i) :: rat)
          \<le> of_int ((lastRequestTime c # dispatch_times c calls) ! Suc i)" by linarith
  then show "(lastRequestTime c # dispatch_times c calls) ! i
          \<le> (lastRequestTime c # dispatch_times c calls) ! Suc i" by (simp only: of_int_le_iff)
qed

text \<open>
  Claim C4, as amended. On every call, with the rate ceiling \<open>N\<close> (not zero, as for
  every client that was constructed): when the time since the stored last dispatch is
  below \<open>1000/N\<close> ms, the suspension asked of the timer is the remaining difference, and
  none is asked otherwise; the stored time becomes the reading of the clock taken before
  returning, in both cases. How far apart the stored times are is then a matter of the
  timer. For every sequence of calls issued one after the other in which the clock has
  advanced by the suspension asked, at least, whenever a call returns, two consecutive
  stored times (the time stored before the first call included) are at least \<open>1000/N\<close>
  ms apart, and the \<open>i\<close>-th and the \<open>j\<close>-th at least \<open>(j - i) * 1000/N\<close>: an idle
  period earns no credit. With a timer that counts whole milliseconds, the same holds
  with the whole part of \<open>1000/N\<close> in the place of \<open>1000/N\<close>.
\<close>

theorem throttle_spacing:
  assumes "rateLimit c \<noteq> 0"
  shows "suspended (invoke c w op) =
           (if of_int (now1 w - lastRequestTime c) < 1000 / rateLimit c
            then Some (Ms (1000 / rateLimit c - of_int (now1 w - lastRequestTime c)))
            else None)
         \<and> lastRequestTime (client_after (invoke c w op)) = now2 w
         \<and> (honoured_run c calls \<longrightarrow>
              (\<forall>i j. i \<le> j \<and> j \<le> length calls \<longrightarrow>
                 of_nat (j - i) * (1000 / rateLimit c) \<le>
                   of_int ((lastRequestTime c # dispatch_times c calls) ! j)
                     - of_int ((lastRequestTime c # dispatch_times c calls) ! i)))
         \<and> (truncated_run c calls \<longrightarrow>
              (\<forall>i j. i \<le> j \<and> j \<le> length calls \<longrightarrow>
                 of_nat (j - i) * of_int \<lfloor>1000 / rateLimit c\<rfloor> \<le>
                   (of_int ((lastRequestTime c # dispatch_times c calls) ! j) :: rat)
                     - of_int ((lastRequestTime c # dispatch_times c calls) ! i)))"
proof (intro conjI impI allI)
  show "suspended (invoke c w op) =
           (if of_int (now1 w - lastRequestTime c) < 1000 / rateLimit c
            then Some (Ms (1000 / rateLimit c - of_int (now1 w - lastRequestTime c)))
            else None)"
    by (simp add: invoke_throttle(5) suspension_cases [OF assms])
  show "lastRequestTime (client_after (invoke c w op)) = now2 w"
    by (rule invoke_throttle)
next
  fix i j
  assume "honoured_run c calls" and "i \<le> j \<and> j \<le> length calls"
  then show "of_nat (j - i) * (1000 / rateLimit c) \<le>
                   of_int ((lastRequestTime c # dispatch_times c calls) ! j)
                     - of_int ((lastRequestTime c # dispatch_times c calls) ! i)"
    using spacing_run_trans [OF assms, of calls i j] by blast
next
  fix i j
  assume "truncated_run c calls" and "i \<le> j \<and> j \<le> length calls"
  then show "of_nat (j - i) * of_int \<lfloor>1000 / rateLimit c\<rfloor> \<le>
                   (of_int ((lastRequestTime c # dispatch_times c calls) ! j) :: rat)
                     - of_int ((lastRequestTime c # dispatch_times c calls) ! i)"
    using spacing_truncated_trans [OF assms, of calls i j] by blast
qed

text \<open>
  The amended claim at two calls through a client with the default ceiling 10: the first
  after a long idle period, the second 30 ms later, suspended for 70 ms. The interval of
  this ceiling is a whole number of milliseconds, 100.
\<close>

theorem throttle_spacing_witness:
  "rateLimit \<lparr>token = ''t'', baseURL = ''https://api.github.com'', rateLimit = 10,
              lastRequestTime = 0, rateLimitInfo = None\<rparr> \<noteq> 0
   \<and> honoured_run
        \<lparr>token = ''t'', baseURL = ''https://api.github.com'', rateLimit = 10,
              lastRequestTime = 0, rateLimitInfo = None\<rparr>
        [(\<lparr>now1 = 5000, now2 = 5000, fetch = (\<lambda>_. None)\<rparr>, GetRepo ''o'' ''r''),
         (\<lparr>now1 = 5030, now2 = 5100, fetch = (\<lambda>_. None)\<rparr>, GetRepo ''o'' ''r'')]
   \<and> truncated_run
        \<lparr>token = ''t'', baseURL = ''https://api.github.com'', rateLimit = 10,
              lastRequestTime = 0, rateLimitInfo = None\<rparr>
        [(\<lparr>now1 = 5000, now2 = 5000, fetch = (\<lambda>_. None)\<rparr>, GetRepo ''o'' ''r''),
         (\<lparr>now1 = 5030, now2 = 5100, fetch = (\<lambda>_. None)\<rparr>, GetRepo ''o'' ''r'')]
   \<and> suspended (invoke \<lparr>token = ''t'', baseURL = ''https://api.github.com'', rateLimit = 10,
              lastRequestTime = 5000, rateLimitInfo = None\<rparr>
              \<lparr>now1 = 5030, now2 = 5100, fetch = (\<lambda>_. None)\<rparr> (GetRepo ''o'' ''r'')) = Some (Ms 70)
   \<and> dispatch_times
        \<lparr>token = ''t'', baseURL = ''https://api.github.com'', rateLimit = 10,
              lastRequestTime = 0, rateLimitInfo = None\<rparr>
        [(\<lparr>now1 = 5000, now2 = 5000, fetch = (\<lambda>_. None)\<rparr>, GetRepo ''o'' ''r''),
         (\<lparr>now1 = 5030, now2 = 5100, fetch = (\<lambda>_. None)\<rparr>, GetRepo ''o'' ''r'')] = [5000, 5100]
   \<and> (1000 / 10 :: rat) \<le> of_int 5100 - of_int 5000
   \<and> (of_int \<lfloor>1000 / 10 :: rat\<rfloor> :: rat) \<le> of_int 5100 - of_int 5000"
  using throttle_spacing
    [of "\<lparr>token = ''t'', baseURL = ''https://api.github.com'', rateLimit = 10,
              lastRequestTime = 0, rateLimitInfo = None\<rparr>"
        "\<lparr>now1 = 5030, now2 = 5100, fetch = (\<lambda>_. None)\<rparr>" "GetRepo ''o'' ''r''"
        "[(\<lparr>now1 = 5000, now2 = 5000, fetch = (\<lambda>_. None)\<rparr>, GetRepo ''o'' ''r''),
         (\<lparr>now1 = 5030, now2 = 5100, fetch = (\<lambda>_. None)\<rparr>, GetRepo ''o'' ''r'')]"]
    throttle_spacing
    [of "\<lparr>token = ''t'', baseURL = ''https://api.github.com'', rateLimit = 10,
              lastRequestTime = 5000, rateLimitInfo = None\<rparr>"
        "\<lparr>now1 = 5030, now2 = 5100, fetch = (\<lambda>_. None)\<rparr>" "GetRepo ''o'' ''r''" "[]"]
  by (simp add: invoke_throttle suspension_def minDelay_def timer_honoured_def timer_truncated_def
           dispatch_times_readings del: invoke.simps)

text \<open>
  Claim C4 as stated fails with a timer that counts whole milliseconds, which is what
  \<open>setTimeout\<close> does. A client with the ceiling 7 is called twice with no time
  between the calls: the second call asks for a suspension of \<open>1000/7\<close> ms, a little
  less than 143; the timer waits 142 ms, and the second dispatch is stored 142 ms after
  the first, less than \<open>1000/7\<close> ms.
\<close>

theorem throttle_spacing_counterexample:
  "suspended (invoke \<lparr>token = ''t'', baseURL = ''https://api.github.com'', rateLimit = 7,
              lastRequestTime = 5000, rateLimitInfo = None\<rparr>
              \<lparr>now1 = 5000, now2 = 5142, fetch = (\<lambda>_. None)\<rparr> (GetRepo ''o'' ''r''))
     = Some (Ms (1000 / 7))
   \<and> truncated_run
        \<lparr>token = ''t'', baseURL = ''https://api.github.com'', rateLimit = 7,
              lastRequestTime = 0, rateLimitInfo = None\<rparr>
        [(\<lparr>now1 = 5000, now2 = 5000, fetch = (\<lambda>_. None)\<rparr>, GetRepo ''o'' ''r''),
         (\<lparr>now1 = 5000, now2 = 5142, fetch = (\<lambda>_. None)\<rparr>, GetRepo ''o'' ''r'')]
   \<and> dispatch_times
        \<lparr>token = ''t'', baseURL = ''https://api.github.com'', rateLimit = 7,
              lastRequestTime = 0, rateLimitInfo = None\<rparr>
        [(\<lparr>now1 = 5000, now2 = 5000, fetch = (\<lambda>_. None)\<rparr>, GetRepo ''o'' ''r''),
         (\<lparr>now1 = 5000, now2 = 5142, fetch = (\<lambda>_. None)\<rparr>, GetRepo ''o'' ''r'')] = [5000, 5142]
   \<and> (of_int (5142 - 5000) :: rat) < 1000 / 7"
  by (simp add: dispatch_times_Cons dispatch_times_Nil invoke_throttle suspension_def minDelay_def
        timer_truncated_def del: invoke.simps)

text \<open>
  Claim C9, as amended. Each write stores the reading of the clock taken at that
  moment, as it is. The stored times are therefore non-decreasing whenever the readings
  of the clock are, from the time stored before the first call on; and also whenever the
  rate ceiling is positive and every suspension is honoured.
\<close>

theorem stored_time_is_clock_reading:
  "dispatch_times c calls = map (\<lambda>call. now2 (fst call)) calls
   \<and> (sorted (lastRequestTime c # clock_readings calls)
        \<longrightarrow> sorted (lastRequestTime c # dispatch_times c calls))
   \<and> (0 < rateLimit c \<and> honoured_run c calls
        \<longrightarrow> sorted (lastRequestTime c # dispatch_times c calls))"
proof (intro conjI impI)
  show "dispatch_times c calls = map (\<lambda>call. now2 (fst call)) calls"
    by (rule dispatch_times_readings)
next
  assume "sorted (lastRequestTime c # clock_readings calls)"
  then show "sorted (lastRequestTime c # dispatch_times c calls)"
    unfolding dispatch_times_readings by (rule sorted_readings)
next
  assume "0 < rateLimit c \<and> honoured_run c calls"
  then show "sorted (lastRequestTime c # dispatch_times c calls)"
    by (simp only: sorted_honoured)
qed

text \<open>The amended claim at two calls with a clock that advances.\<close>

theorem stored_time_is_clock_reading_witness:
  "sorted (0 # clock_readings
        [(\<lparr>now1 = 5000, now2 = 5000, fetch = (\<lambda>_. None)\<rparr>, GetRepo ''o'' ''r''),
         (\<lparr>now1 = 5030, now2 = 5100, fetch = (\<lambda>_. None)\<rparr>, GetRepo ''o'' ''r'')])
   \<and> honoured_run
        \<lparr>token = ''t'', baseURL = ''https://api.github.com'', rateLimit = 10,
              lastRequestTime = 0, rateLimitInfo = None\<rparr>
        [(\<lparr>now1 = 5000, now2 = 5000, fetch = (\<lambda>_. None)\<rparr>, GetRepo ''o'' ''r''),
         (\<lparr>now1 = 5030, now2 = 5100, fetch = (\<lambda>_. None)\<rparr>, GetRepo ''o'' ''r'')]
   \<and> sorted (0 # dispatch_times
        \<lparr>token = ''t'', baseURL = ''https://api.github.com'', rateLimit = 10,
              lastRequestTime = 0, rateLimitInfo = None\<rparr>
        [(\<lparr>now1 = 5000, now2 = 5000, fetch = (\<lambda>_. None)\<rparr>, GetRepo ''o'' ''r''),
         (\<lparr>now1 = 5030, now2 = 5100, fetch = (\<lambda>_. None)\<rparr>, GetRepo ''o'' ''r'')])"
  using stored_time_is_clock_reading
    [of "\<lparr>token = ''t'', baseURL = ''https://api.github.com'', rateLimit = 10,
              lastRequestTime = 0, rateLimitInfo = None\<rparr>"
        "[(\<lparr>now1 = 5000, now2 = 5000, fetch = (\<lambda>_. None)\<rparr>, GetRepo ''o'' ''r''),
         (\<lparr>now1 = 5030, now2 = 5100, fetch = (\<lambda>_. None)\<rparr>, GetRepo ''o'' ''r'')]"]
  by (simp add: clock_readings_def invoke_throttle suspension_def minDelay_def timer_honoured_def
           del: invoke.simps)

text \<open>
  Claim C9 as stated fails when the wall clock is set back. With the default ceiling, a
  clock set back by an hour during the second call's suspension makes the second stored
  time smaller than the first. With a ceiling of \<open>-5\<close>, which the constructor accepts, a
  clock set back by 100 ms between two calls does the same although no suspension is
  asked and the clock does not move during either call.
\<close>

theorem stored_time_counterexample:
  "dispatch_times
        \<lparr>token = ''t'', baseURL = ''https://api.github.com'', rateLimit = 10,
              lastRequestTime = 0, rateLimitInfo = None\<rparr>
        [(\<lparr>now1 = 1700000000000, now2 = 1700000000000, fetch = (\<lambda>_. None)\<rparr>, GetRepo ''o'' ''r''),
         (\<lparr>now1 = 1700000000030, now2 = 1699996400100, fetch = (\<lambda>_. None)\<rparr>, GetRepo ''o'' ''r'')]
     = [1700000000000, 1699996400100]
   \<and> (1699996400100 :: int) < 1700000000000
   \<and> honoured_run
        \<lparr>token = ''t'', baseURL = ''https://api.github.com'', rateLimit = - 5,
              lastRequestTime = 0, rateLimitInfo = None\<rparr>
        [(\<lparr>now1 = 1700000000000, now2 = 1700000000000, fetch = (\<lambda>_. None)\<rparr>, GetRepo ''o'' ''r''),
         (\<lparr>now1 = 1699999999900, now2 = 1699999999900, fetch = (\<lambda>_. None)\<rparr>, GetRepo ''o'' ''r'')]
   \<and> dispatch_times
        \<lparr>token = ''t'', baseURL = ''https://api.github.com'', rateLimit = - 5,
              lastRequestTime = 0, rateLimitInfo = None\<rparr>
        [(\<lparr>now1 = 1700000000000, now2 = 1700000000000, fetch = (\<lambda>_. None)\<rparr>, GetRepo ''o'' ''r''),
         (\<lparr>now1 = 1699999999900, now2 = 1699999999900, fetch = (\<lambda>_. None)\<rparr>, GetRepo ''o'' ''r'')]
     = [1700000000000, 1699999999900]
   \<and> (1699999999900 :: int) < 1700000000000"
  by (simp add: dispatch_times_Cons dispatch_times_Nil invoke_throttle suspension_def minDelay_def
        timer_honoured_def del: invoke.simps)

section \<open>Properties of \<open>request\<close>\<close>

subsection \<open>Decimal numerals and \<open>parseInt\<close>\<close>

lemma of_char_digit_char: "d < 10 \<Longrightarrow> (of_char (digit_char d) :: nat) = 48 + d"
  by (simp add: digit_char_def)

lemma is_digit_digit_char: "d < 10 \<Longrightarrow> is_digit (digit_char d)"
  by (simp add: is_digit_def of_char_digit_char)

lemma digit_val_digit_char: "d < 10 \<Longrightarrow> digit_val (digit_char d) = int d"
  by (simp add: digit_val_def of_char_digit_char)

lemma dec_digits: "c \<in> set (dec n) \<Longrightarrow> is_digit c"
proof (induction n arbitrary: c rule: dec.induct)
  case (1 n)
  show ?case
  proof (cases "n < 10")
    case True
    with "1.prems" show ?thesis by (simp add: dec.simps [of n] is_digit_digit_char)
  next
    case False
    with "1.prems" have "c \<in> set (dec (n div 10)) \<or> c = digit_char (n mod 10)"
      by (auto simp: dec.simps [of n])
    with "1.IH" [OF False] show ?thesis by (auto simp: is_digit_digit_char)
  qed
qed

lemma dec_not_Nil: "dec n \<noteq> []"
  by (simp add: dec.simps [of n])

lemma digits_value_snoc: "digits_value (ds @ [c]) = 10 * digits_value ds + digit_val c"
  by (simp add: digits_value_def)

lemma digits_value_dec: "digits_value (dec n) = int n"
proof (induction n rule: dec.induct)
  case (1 n)
  show ?case
  proof (cases "n < 10")
    case True
    then show ?thesis by (simp add: dec.simps [of n] digits_value_def digit_val_digit_char)
  next
    case False
    have "10 * int (n div 10) + int (n mod 10) = int n" by presburger
    with False "1.IH" show ?thesis
      by (simp add: dec.simps [of n] digits_value_snoc digit_val_digit_char)
  qed
qed

lemma is_digit_not_space: "is_digit c \<Longrightarrow> \<not> StrWhiteSpaceChar c"
  by (auto simp: is_digit_def StrWhiteSpaceChar_def)

lemma is_digit_not_sign: "is_digit c \<Longrightarrow> c \<noteq> CHR ''-'' \<and> c \<noteq> CHR ''+''"
  by (auto simp: is_digit_def)

lemma hd_dec_digit: "is_digit (hd (dec n))"
  using dec_digits [of "hd (dec n)" n] dec_not_Nil [of n] by simp

lemma takeWhile_dec: "takeWhile is_digit (dec n) = dec n"
  by (simp add: takeWhile_eq_all_conv dec_digits)

lemma dropWhile_dec: "dropWhile StrWhiteSpaceChar (dec n) = dec n"
  by (simp add: dropWhile_eq_self_iff is_digit_not_space hd_dec_digit)

lemma takeWhile_dec_append:
  assumes "t = [] \<or> \<not> is_digit (hd t)"
  shows "takeWhile is_digit (dec n @ t) = dec n"
proof -
  have "takeWhile is_digit (dec n @ t) = dec n @ takeWhile is_digit t"
    by (rule takeWhile_append2) (rule dec_digits)
  moreover from assms have "takeWhile is_digit t = []"
    by (simp add: takeWhile_eq_Nil_iff)
  ultimately show ?thesis by simp
qed

lemma dropWhile_dec_append: "dropWhile StrWhiteSpaceChar (dec n @ t) = dec n @ t"
  by (simp add: dropWhile_eq_self_iff is_digit_not_space hd_dec_digit dec_not_Nil)

lemma parseInt_dec_append:
  assumes "t = [] \<or> \<not> is_digit (hd t)"
  shows "parseInt (dec n @ t) = to_double (int n)"
  using is_digit_not_sign [OF hd_dec_digit [of n]]
  by (simp add: parseInt_def Let_def dropWhile_dec_append takeWhile_dec_append [OF assms]
        dec_not_Nil digits_value_dec)

lemma parseInt_decimal_append:
  assumes "t = [] \<or> \<not> is_digit (hd t)"
  shows "parseInt (decimal i @ t) = to_double i"
proof (cases "i < 0")
  case False
  then show ?thesis by (simp add: decimal_def parseInt_dec_append [OF assms])
next
  case True
  have ws: "\<not> StrWhiteSpaceChar (CHR ''-'')" by (simp add: StrWhiteSpaceChar_def)
  from True ws show ?thesis
    by (simp add: decimal_def parseInt_def Let_def takeWhile_dec_append [OF assms] dec_not_Nil
          digits_value_dec)
qed

lemma parseInt_decimal: "parseInt (decimal i) = to_double i"
  using parseInt_decimal_append [of "[]" i] by simp

lemma bits_le: "a < 2 ^ k \<Longrightarrow> bits a \<le> k"
proof (induction k arbitrary: a)
  case 0
  then show ?case by (simp add: bits.simps [of a])
next
  case (Suc k)
  show ?case
  proof (cases "a \<le> 0")
    case True
    then show ?thesis by (simp add: bits.simps [of a])
  next
    case False
    from Suc.prems have "a div 2 < 2 ^ k" by simp
    from Suc.IH [OF this] False show ?thesis by (simp add: bits.simps [of a])
  qed
qed

lemma to_double_limit:
  "to_double 9007199254740992 = Num 9007199254740992"
  "to_double (- 9007199254740992) = Num (- 9007199254740992)"
  by code_simp+

lemma to_double_exact:
  assumes "\<bar>i\<bar> \<le> 2 ^ 53"
  shows "to_double i = Num i"
proof (cases "\<bar>i\<bar> < 2 ^ 53")
  case True
  then have b: "bits \<bar>i\<bar> \<le> 53" by (rule bits_le)
  then have "bits \<bar>i\<bar> - 53 = 0" by simp
  with b show ?thesis by (simp add: to_double_def Let_def)
next
  case False
  with assms have "\<bar>i\<bar> = 9007199254740992" by simp
  then have "i = 9007199254740992 \<or> i = - 9007199254740992" by linarith
  then show ?thesis by (auto simp: to_double_limit)
qed

subsection \<open>The steps of \<open>request\<close>\<close>

lemma build_headers_lastRequestTime:
  "build_headers (c\<lparr>lastRequestTime := t\<rparr>) b h = build_headers c b h"
  by (simp add: build_headers_def)

lemma request_dispatched:
  "dispatched (request c w meth path b h) =
     \<lparr> req_url = baseURL c @ path, req_method = meth, req_headers = build_headers c b h,
       req_body = (case b of None \<Rightarrow> None | Some v \<Rightarrow> if truthy v then Some (JSON_stringify v) else None) \<rparr>"
  by (simp add: request_def rateLimitDelay_def Let_def build_headers_lastRequestTime split: option.splits)

lemma request_after_response:
  assumes "fetch w (dispatched (request c w meth path b h)) = Some r"
  shows "client_after (request c w meth path b h) = extract_rateLimitInfo (c\<lparr>lastRequestTime := now2 w\<rparr>) r"
    and "outcome (request c w meth path b h) =
           (if ok r then decode r else Inl (api_error (status r) (body r)))"
  using assms unfolding request_dispatched
  by (simp_all add: request_def rateLimitDelay_def Let_def build_headers_lastRequestTime)

lemma request_after_failure:
  assumes "fetch w (dispatched (request c w meth path b h)) = None"
  shows "client_after (request c w meth path b h) = c\<lparr>lastRequestTime := now2 w\<rparr>"
    and "outcome (request c w meth path b h) = Inl NetworkError"
  using assms unfolding request_dispatched
  by (simp_all add: request_def rateLimitDelay_def Let_def build_headers_lastRequestTime)

lemma rateLimitInfo_extract:
  "rateLimitInfo (extract_rateLimitInfo c r) =
     (case (headers_get (headers r) ''X-RateLimit-Limit'',
            headers_get (headers r) ''X-RateLimit-Remaining'',
            headers_get (headers r) ''X-RateLimit-Reset'') of
        (Some l, Some rm, Some rs) \<Rightarrow>
          if l \<noteq> [] \<and> rm \<noteq> [] \<and> rs \<noteq> []
          then Some \<lparr> limit = parseInt l, remaining = parseInt rm, reset = parseInt rs \<rparr>
          else rateLimitInfo c
      | _ \<Rightarrow> rateLimitInfo c)"
  by (simp add: extract_rateLimitInfo_def split: option.splits)

lemma decimal_not_Nil: "decimal i \<noteq> []"
  by (simp add: decimal_def dec_not_Nil)

lemma headers_get_complete:
  "headers_get [(''x-ratelimit-limit'', ''60''), (''x-ratelimit-remaining'', ''59''),
                (''x-ratelimit-reset'', ''1700003600'')] ''X-RateLimit-Limit'' = Some ''60''"
  "headers_get [(''x-ratelimit-limit'', ''60''), (''x-ratelimit-remaining'', ''59''),
                (''x-ratelimit-reset'', ''1700003600'')] ''X-RateLimit-Remaining'' = Some ''59''"
  "headers_get [(''x-ratelimit-limit'', ''60''), (''x-ratelimit-remaining'', ''59''),
                (''x-ratelimit-reset'', ''1700003600'')] ''X-RateLimit-Reset'' = Some ''1700003600''"
  by code_simp+

lemma parseInt_complete:
  "parseInt ''60'' = Num 60" "parseInt ''59'' = Num 59" "parseInt ''1700003600'' = Num 1700003600"
  by code_simp+

lemma char_of_digits:
  "char_of (48 :: nat) = CHR ''0''" "char_of (49 :: nat) = CHR ''1''" "char_of (50 :: nat) = CHR ''2''"
  "char_of (51 :: nat) = CHR ''3''" "char_of (52 :: nat) = CHR ''4''" "char_of (53 :: nat) = CHR ''5''"
  "char_of (54 :: nat) = CHR ''6''" "char_of (55 :: nat) = CHR ''7''" "char_of (56 :: nat) = CHR ''8''"
  "char_of (57 :: nat) = CHR ''9''"
  by code_simp+

lemma decimal_examples:
  "decimal 60 = ''60''" "decimal 59 = ''59''" "decimal 1700003600 = ''1700003600''"
  by (simp_all add: decimal_def dec.simps digit_char_def char_of_digits)

lemma headers_get_malformed:
  "headers_get [(''X-RateLimit-Limit'', ''5000''), (''X-RateLimit-Remaining'', ''abc''),
                (''X-RateLimit-Reset'', ''1700003600'')] ''X-RateLimit-Limit'' = Some ''5000''"
  "headers_get [(''X-RateLimit-Limit'', ''5000''), (''X-RateLimit-Remaining'', ''abc''),
                (''X-RateLimit-Reset'', ''1700003600'')] ''X-RateLimit-Remaining'' = Some ''abc''"
  "headers_get [(''X-RateLimit-Limit'', ''5000''), (''X-RateLimit-Remaining'', ''abc''),
                (''X-RateLimit-Reset'', ''1700003600'')] ''X-RateLimit-Reset'' = Some ''1700003600''"
  by code_simp+

lemma parseInt_malformed:
  "parseInt ''5000'' = Num 5000" "parseInt ''abc'' = NaN"
  by code_simp+

lemma headers_get_large:
  "headers_get [(''X-RateLimit-Limit'', ''9007199254740993''), (''X-RateLimit-Remaining'', ''4999''),
                (''X-RateLimit-Reset'', ''1700003600'')] ''X-RateLimit-Limit'' = Some ''9007199254740993''"
  "headers_get [(''X-RateLimit-Limit'', ''9007199254740993''), (''X-RateLimit-Remaining'', ''4999''),
                (''X-RateLimit-Reset'', ''1700003600'')] ''X-RateLimit-Remaining'' = Some ''4999''"
  "headers_get [(''X-RateLimit-Limit'', ''9007199254740993''), (''X-RateLimit-Remaining'', ''4999''),
                (''X-RateLimit-Reset'', ''1700003600'')] ''X-RateLimit-Reset'' = Some ''1700003600''"
  by code_simp+

lemma parseInt_large:
  "parseInt ''9007199254740993'' = Num 9007199254740992" "parseInt ''4999'' = Num 4999"
  by code_simp+

subsection \<open>The rate limit information\<close>

text \<open>
  Claim C1, as amended. For every response, whatever its status: when the three headers
  are there and none is empty, the stored information is replaced by \<open>parseInt\<close> of the
  three values. When the values are the decimal numerals of three integers, these are
  the doubles nearest to the integers, and so the three integers themselves when their
  magnitude is at most \<open>2^53\<close>. When one of the headers is missing or empty, the stored
  information stays as it was. In both cases nothing is thrown on the way: the result of
  the call is what the status and the body decide. \<open>parseInt\<close> reads the numeral at
  the head of a value and ignores the text after it that does not begin with a digit.
  (A value that is there but is no integer does not keep the old information, and an
  integer beyond \<open>2^53\<close> is not always stored as it is: see the counterexample.)
\<close>

theorem quota_snapshot_update:
  assumes "fetch w (dispatched (request c w meth path b h)) = Some r"
  shows "(\<forall>l rm rs.
            headers_get (headers r) ''X-RateLimit-Limit'' = Some l
            \<and> headers_get (headers r) ''X-RateLimit-Remaining'' = Some rm
            \<and> headers_get (headers r) ''X-RateLimit-Reset'' = Some rs
            \<and> l \<noteq> [] \<and> rm \<noteq> [] \<and> rs \<noteq> [] \<longrightarrow>
            rateLimitInfo (client_after (request c w meth path b h))
              = Some \<lparr> limit = parseInt l, remaining = parseInt rm, reset = parseInt rs \<rparr>)
       \<and> (\<forall>i j k.
            headers_get (headers r) ''X-RateLimit-Limit'' = Some (decimal i)
            \<and> headers_get (headers r) ''X-RateLimit-Remaining'' = Some (decimal j)
            \<and> headers_get (headers r) ''X-RateLimit-Reset'' = Some (decimal k) \<longrightarrow>
            rateLimitInfo (client_after (request c w meth path b h))
              = Some \<lparr> limit = to_double i, remaining = to_double j, reset = to_double k \<rparr>
            \<and> (\<bar>i\<bar> \<le> 2 ^ 53 \<and> \<bar>j\<bar> \<le> 2 ^ 53 \<and> \<bar>k\<bar> \<le> 2 ^ 53 \<longrightarrow>
                 rateLimitInfo (client_after (request c w meth path b h))
                   = Some \<lparr> limit = Num i, remaining = Num j, reset = Num k \<rparr>))
       \<and> (headers_get (headers r) ''X-RateLimit-Limit'' \<in> {None, Some []}
            \<or> headers_get (headers r) ''X-RateLimit-Remaining'' \<in> {None, Some []}
            \<or> headers_get (headers r) ''X-RateLimit-Reset'' \<in> {None, Some []} \<longrightarrow>
            rateLimitInfo (client_after (request c w meth path b h)) = rateLimitInfo c)
       \<and> outcome (request c w meth path b h)
            = (if ok r then decode r else Inl (api_error (status r) (body r)))
       \<and> (\<forall>i t. t = [] \<or> \<not> is_digit (hd t) \<longrightarrow> parseInt (decimal i @ t) = to_double i)"
  by (auto simp: request_after_response [OF assms] rateLimitInfo_extract parseInt_decimal
        parseInt_decimal_append decimal_not_Nil to_double_exact split: option.splits)

text \<open>
  The amended claim at a 404 response that carries the three headers, with the decimal
  numerals of 60, 59 and 1700003600.
\<close>

theorem quota_snapshot_update_witness:
  "rateLimitInfo (client_after (request
      \<lparr>token = ''t'', baseURL = ''https://api.github.com'', rateLimit = 10,
        lastRequestTime = 0, rateLimitInfo = None\<rparr>
      \<lparr>now1 = 5000, now2 = 5000,
        fetch = (\<lambda>_. Some \<lparr>status = 404,
                   headers = [(''x-ratelimit-limit'', ''60''), (''x-ratelimit-remaining'', ''59''),
                              (''x-ratelimit-reset'', ''1700003600'')],
                   body = ''Not Found''\<rparr>)\<rparr>
      ''GET'' ''/user'' None None))
   = Some \<lparr>limit = Num 60, remaining = Num 59, reset = Num 1700003600\<rparr>
   \<and> parseInt ''60'' = Num 60 \<and> parseInt ''59'' = Num 59 \<and> parseInt ''1700003600'' = Num 1700003600"
proof -
  let ?r = "\<lparr>status = 404,
             headers = [(''x-ratelimit-limit'', ''60''), (''x-ratelimit-remaining'', ''59''),
                        (''x-ratelimit-reset'', ''1700003600'')],
             body = ''Not Found''\<rparr>"
  let ?w = "\<lparr>now1 = 5000, now2 = 5000, fetch = (\<lambda>_. Some ?r)\<rparr>"
  let ?c = "\<lparr>token = ''t'', baseURL = ''https://api.github.com'', rateLimit = 10,
             lastRequestTime = 0, rateLimitInfo = None\<rparr>"
  have f: "fetch ?w (dispatched (request ?c ?w ''GET'' ''/user'' None None)) = Some ?r"
    by simp
  note t = quota_snapshot_update [OF f]
  have h: "headers_get (headers ?r) ''X-RateLimit-Limit'' = Some (decimal 60)
           \<and> headers_get (headers ?r) ''X-RateLimit-Remaining'' = Some (decimal 59)
           \<and> headers_get (headers ?r) ''X-RateLimit-Reset'' = Some (decimal 1700003600)"
    by (simp add: headers_get_complete decimal_examples)
  have b: "\<bar>60 :: int\<bar> \<le> 2 ^ 53 \<and> \<bar>59 :: int\<bar> \<le> 2 ^ 53 \<and> \<bar>1700003600 :: int\<bar> \<le> 2 ^ 53"
    by simp
  have "rateLimitInfo (client_after (request ?c ?w ''GET'' ''/user'' None None))
          = Some \<lparr> limit = Num 60, remaining = Num 59, reset = Num 1700003600 \<rparr>"
    by (rule t [THEN conjunct2, THEN conjunct1, rule_format, OF h, THEN conjunct2, rule_format, OF b])
  moreover have "rateLimitInfo (client_after (request ?c ?w ''GET'' ''/user'' None None))
          = Some \<lparr> limit = parseInt ''60'', remaining = parseInt ''59'',
                   reset = parseInt ''1700003600'' \<rparr>"
    by (rule t [THEN conjunct1, rule_format]) (simp add: headers_get_complete)
  ultimately show ?thesis by simp
qed

text \<open>
  Claim C1 as stated fails on a malformed value: with \<open>abc\<close> as the remaining count,
  the information stored before is not kept; it is replaced, and its \<open>remaining\<close> field
  is \<open>NaN\<close>. It also fails on an integer that no double holds: the limit
  \<open>9007199254740993\<close>, which is \<open>2^53 + 1\<close>, is stored as \<open>9007199254740992\<close>.
\<close>

theorem quota_snapshot_counterexample:
  "rateLimitInfo (client_after (request
      \<lparr>token = ''t'', baseURL = ''https://api.github.com'', rateLimit = 10,
        lastRequestTime = 0,
        rateLimitInfo = Some \<lparr>limit = Num 5000, remaining = Num 4999, reset = Num 1700000000\<rparr>\<rparr>
      \<lparr>now1 = 5000, now2 = 5000,
        fetch = (\<lambda>_. Some \<lparr>status = 200,
                   headers = [(''X-RateLimit-Limit'', ''5000''), (''X-RateLimit-Remaining'', ''abc''),
                              (''X-RateLimit-Reset'', ''1700003600'')],
                   body = ''ok''\<rparr>)\<rparr>
      ''GET'' ''/user'' None None))
   = Some \<lparr>limit = Num 5000, remaining = NaN, reset = Num 1700003600\<rparr>
   \<and> rateLimitInfo (client_after (request
      \<lparr>token = ''t'', baseURL = ''https://api.github.com'', rateLimit = 10,
        lastRequestTime = 0, rateLimitInfo = None\<rparr>
      \<lparr>now1 = 5000, now2 = 5000,
        fetch = (\<lambda>_. Some \<lparr>status = 200,
                   headers = [(''X-RateLimit-Limit'', ''9007199254740993''),
                              (''X-RateLimit-Remaining'', ''4999''),
                              (''X-RateLimit-Reset'', ''1700003600'')],
                   body = ''ok''\<rparr>)\<rparr>
      ''GET'' ''/user'' None None))
   = Some \<lparr>limit = Num 9007199254740992, remaining = Num 4999, reset = Num 1700003600\<rparr>"
proof -
  let ?r = "\<lparr>status = 200,
                   headers = [(''X-RateLimit-Limit'', ''5000''), (''X-RateLimit-Remaining'', ''abc''),
                              (''X-RateLimit-Reset'', ''1700003600'')],
                   body = ''ok''\<rparr>"
  let ?w = "\<lparr>now1 = 5000, now2 = 5000, fetch = (\<lambda>_. Some ?r)\<rparr>"
  let ?c = "\<lparr>token = ''t'', baseURL = ''https://api.github.com'', rateLimit = 10,
        lastRequestTime = 0,
        rateLimitInfo = Some \<lparr>limit = Num 5000, remaining = Num 4999, reset = Num 1700000000\<rparr>\<rparr>"
  let ?r' = "\<lparr>status = 200,
                   headers = [(''X-RateLimit-Limit'', ''9007199254740993''),
                              (''X-RateLimit-Remaining'', ''4999''),
                              (''X-RateLimit-Reset'', ''1700003600'')],
                   body = ''ok''\<rparr>"
  let ?w' = "\<lparr>now1 = 5000, now2 = 5000, fetch = (\<lambda>_. Some ?r')\<rparr>"
  let ?c' = "\<lparr>token = ''t'', baseURL = ''https://api.github.com'', rateLimit = 10,
        lastRequestTime = 0, rateLimitInfo = None\<rparr>"
  have f: "fetch ?w (dispatched (request ?c ?w ''GET'' ''/user'' None None)) = Some ?r"
    by simp
  have f': "fetch ?w' (dispatched (request ?c' ?w' ''GET'' ''/user'' None None)) = Some ?r'"
    by simp
  have "rateLimitInfo (client_after (request ?c ?w ''GET'' ''/user'' None None))
          = Some \<lparr>limit = Num 5000, remaining = NaN, reset = Num 1700003600\<rparr>"
    by (simp add: request_after_response(1) [OF f] rateLimitInfo_extract headers_get_malformed
          parseInt_malformed parseInt_complete)
  moreover have "rateLimitInfo (client_after (request ?c' ?w' ''GET'' ''/user'' None None))
          = Some \<lparr>limit = Num 9007199254740992, remaining = Num 4999, reset = Num 1700003600\<rparr>"
    by (simp add: request_after_response(1) [OF f'] rateLimitInfo_extract headers_get_large
          parseInt_large parseInt_complete)
  ultimately show ?thesis by (rule conjI)
qed

subsection \<open>Failures\<close>

lemma errorMessage_truthy: "message_of t = Some m \<Longrightarrow> truthy m \<Longrightarrow> errorMessage t = m"
  by (simp add: errorMessage_def)

lemma errorMessage_raw:
  "message_of t = None \<or> (\<exists>m. message_of t = Some m \<and> \<not> truthy m) \<Longrightarrow> errorMessage t = JString t"
  by (auto simp: errorMessage_def)

lemma api_error_Some:
  "ToString (errorMessage t) = Some e \<Longrightarrow>
     api_error st t = Error (''GitHub API error ('' @ dec st @ ''): '' @ e)"
  by (simp add: api_error_def)

lemma api_error_None: "ToString (errorMessage t) = None \<Longrightarrow> api_error st t = TypeError"
  by (simp add: api_error_def)

lemma sublist_status: "sublist (dec st) (''GitHub API error ('' @ dec st @ ''): '' @ e)"
  by (rule sublist_appendI)

lemma sublist_message: "sublist e (''GitHub API error ('' @ dec st @ ''): '' @ e)"
  by (metis append.assoc sublist_append_leftI)

lemma message_of_not_found:
  \<open>message_of ''{"message": "Not Found"}'' = Some (JString ''Not Found'')\<close>
  by code_simp

lemma message_of_server_error: "message_of ''Server Error'' = None"
  by code_simp

lemma message_of_empty: \<open>message_of ''{"message": ""}'' = Some (JString [])\<close>
  by code_simp

lemma message_of_no_body: "message_of [] = None"
  by code_simp

lemma dec_examples: "dec 404 = ''404''" "dec 500 = ''500''" "dec 502 = ''502''"
  by code_simp+

lemma not_ok_examples:
  "\<not> ok \<lparr>status = 404, headers = hs, body = t\<rparr>" "\<not> ok \<lparr>status = 500, headers = hs, body = t\<rparr>"
  "\<not> ok \<lparr>status = 502, headers = hs, body = t\<rparr>"
  by (simp_all add: ok_def)

text \<open>
  Claim C5, as amended. For every response that is not ok, whatever its status and its
  body, \<open>request\<close> throws the error built from both. When the body parses as JSON and
  the value parsed is an object with a member \<open>message\<close> that is truthy (not the empty
  string, zero, \<open>false\<close> or \<open>null\<close>), that member is the message extracted; in every
  other case, a falsy member included, the raw text of the body is, the empty body
  too. The error message is \<open>GitHub API error (status): message\<close> with the message
  converted to a string, and so holds both the digits of the status and the message; a
  message that cannot be converted gives a \<open>TypeError\<close> in its place. The status plays
  no part in the extraction.
\<close>

theorem api_failure_message:
  assumes "fetch w (dispatched (request c w meth path b h)) = Some r" and "\<not> ok r"
  shows "outcome (request c w meth path b h) = Inl (api_error (status r) (body r))
       \<and> (\<forall>m. message_of (body r) = Some m \<and> truthy m \<longrightarrow> errorMessage (body r) = m)
       \<and> (message_of (body r) = None \<or> (\<exists>m. message_of (body r) = Some m \<and> \<not> truthy m)
            \<longrightarrow> errorMessage (body r) = JString (body r))
       \<and> (\<forall>e. ToString (errorMessage (body r)) = Some e \<longrightarrow>
            api_error (status r) (body r)
              = Error (''GitHub API error ('' @ dec (status r) @ ''): '' @ e)
            \<and> sublist (dec (status r)) (''GitHub API error ('' @ dec (status r) @ ''): '' @ e)
            \<and> sublist e (''GitHub API error ('' @ dec (status r) @ ''): '' @ e))
       \<and> (ToString (errorMessage (body r)) = None \<longrightarrow> api_error (status r) (body r) = TypeError)"
proof (intro conjI allI impI)
  show "outcome (request c w meth path b h) = Inl (api_error (status r) (body r))"
    using assms(2) by (simp add: request_after_response(2) [OF assms(1)])
next
  fix m assume "message_of (body r) = Some m \<and> truthy m"
  then show "errorMessage (body r) = m" by (simp add: errorMessage_truthy)
next
  assume "message_of (body r) = None \<or> (\<exists>m. message_of (body r) = Some m \<and> \<not> truthy m)"
  then show "errorMessage (body r) = JString (body r)" by (rule errorMessage_raw)
next
  fix e assume "ToString (errorMessage (body r)) = Some e"
  then show "api_error (status r) (body r)
              = Error (''GitHub API error ('' @ dec (status r) @ ''): '' @ e)"
    by (rule api_error_Some)
next
  fix e
  show "sublist (dec (status r)) (''GitHub API error ('' @ dec (status r) @ ''): '' @ e)"
    by (rule sublist_status)
  show "sublist e (''GitHub API error ('' @ dec (status r) @ ''): '' @ e)"
    by (rule sublist_message)
next
  assume "ToString (errorMessage (body r)) = None"
  then show "api_error (status r) (body r) = TypeError" by (rule api_error_None)
qed

text \<open>
  The amended claim at the two examples, status 404 with a JSON body whose message is
  \<open>Not Found\<close> and status 500 with the body \<open>Server Error\<close>, which is not JSON,
  and at status 502 with an empty body.
\<close>

theorem api_failure_message_witness:
  \<open>outcome (request
      \<lparr>token = ''t'', baseURL = ''https://api.github.com'', rateLimit = 10,
        lastRequestTime = 0, rateLimitInfo = None\<rparr>
      \<lparr>now1 = 5000, now2 = 5000,
        fetch = (\<lambda>_. Some \<lparr>status = 404, headers = [], body = ''{"message": "Not Found"}''\<rparr>)\<rparr>
      ''GET'' ''/repos/o/r'' None None)
     = Inl (Error ''GitHub API error (404): Not Found'')
   \<and> outcome (request
      \<lparr>token = ''t'', baseURL = ''https://api.github.com'', rateLimit = 10,
        lastRequestTime = 0, rateLimitInfo = None\<rparr>
      \<lparr>now1 = 5000, now2 = 5000,
        fetch = (\<lambda>_. Some \<lparr>status = 500, headers = [], body = ''Server Error''\<rparr>)\<rparr>
      ''GET'' ''/repos/o/r'' None None)
     = Inl (Error ''GitHub API error (500): Server Error'')
   \<and> outcome (request
      \<lparr>token = ''t'', baseURL = ''https://api.github.com'', rateLimit = 10,
        lastRequestTime = 0, rateLimitInfo = None\<rparr>
      \<lparr>now1 = 5000, now2 = 5000,
        fetch = (\<lambda>_. Some \<lparr>status = 502, headers = [], body = []\<rparr>)\<rparr>
      ''GET'' ''/repos/o/r'' None None)
     = Inl (Error ''GitHub API error (502): '')\<close>
proof -
  let ?c = "\<lparr>token = ''t'', baseURL = ''https://api.github.com'', rateLimit = 10,
        lastRequestTime = 0, rateLimitInfo = None\<rparr>"
  let ?r1 = \<open>\<lparr>status = 404, headers = [], body = ''{"message": "Not Found"}''\<rparr>\<close>
  let ?r2 = "\<lparr>status = 500, headers = [], body = ''Server Error''\<rparr>"
  let ?w1 = "\<lparr>now1 = 5000, now2 = 5000, fetch = (\<lambda>_. Some ?r1)\<rparr>"
  let ?w2 = "\<lparr>now1 = 5000, now2 = 5000, fetch = (\<lambda>_. Some ?r2)\<rparr>"
  let ?r3 = "\<lparr>status = 502, headers = [], body = []\<rparr>"
  let ?w3 = "\<lparr>now1 = 5000, now2 = 5000, fetch = (\<lambda>_. Some ?r3)\<rparr>"
  have f3: "fetch ?w3 (dispatched (request ?c ?w3 ''GET'' ''/repos/o/r'' None None)) = Some ?r3"
    by simp
  note t3 = api_failure_message [OF f3 not_ok_examples(3)]
  have m3: "errorMessage (body ?r3) = JString []"
    using t3 by (simp add: message_of_no_body)
  have o3: "outcome (request ?c ?w3 ''GET'' ''/repos/o/r'' None None)
          = Inl (Error (''GitHub API error ('' @ dec 502 @ ''): '' @ []))"
    using t3 m3 by simp
  have f1: "fetch ?w1 (dispatched (request ?c ?w1 ''GET'' ''/repos/o/r'' None None)) = Some ?r1"
    by simp
  have f2: "fetch ?w2 (dispatched (request ?c ?w2 ''GET'' ''/repos/o/r'' None None)) = Some ?r2"
    by simp
  note t1 = api_failure_message [OF f1 not_ok_examples(1)]
  note t2 = api_failure_message [OF f2 not_ok_examples(2)]
  have m1: "errorMessage (body ?r1) = JString ''Not Found''"
    using t1 by (simp add: message_of_not_found)
  have m2: "errorMessage (body ?r2) = JString ''Server Error''"
    using t2 by (simp add: message_of_server_error)
  have "outcome (request ?c ?w1 ''GET'' ''/repos/o/r'' None None)
          = Inl (Error (''GitHub API error ('' @ dec 404 @ ''): '' @ ''Not Found''))"
    using t1 m1 by simp
  moreover have "outcome (request ?c ?w2 ''GET'' ''/repos/o/r'' None None)
          = Inl (Error (''GitHub API error ('' @ dec 500 @ ''): '' @ ''Server Error''))"
    using t2 m2 by simp
  ultimately show ?thesis using o3 by (simp add: dec_examples)
qed

text \<open>
  Claim C5 as stated fails on a message field that is the empty string: the body
  parses as JSON and carries the field, but the message extracted is the raw body and
  not the field.
\<close>

theorem api_failure_message_counterexample:
  \<open>message_of ''{"message": ""}'' = Some (JString [])
   \<and> errorMessage ''{"message": ""}'' = JString ''{"message": ""}''
   \<and> outcome (request
      \<lparr>token = ''t'', baseURL = ''https://api.github.com'', rateLimit = 10,
        lastRequestTime = 0, rateLimitInfo = None\<rparr>
      \<lparr>now1 = 5000, now2 = 5000,
        fetch = (\<lambda>_. Some \<lparr>status = 404, headers = [], body = ''{"message": ""}''\<rparr>)\<rparr>
      ''GET'' ''/repos/o/r'' None None)
     = Inl (Error ''GitHub API error (404): {"message": ""}'')\<close>
proof -
  let ?c = "\<lparr>token = ''t'', baseURL = ''https://api.github.com'', rateLimit = 10,
        lastRequestTime = 0, rateLimitInfo = None\<rparr>"
  let ?r = \<open>\<lparr>status = 404, headers = [], body = ''{"message": ""}''\<rparr>\<close>
  let ?w = "\<lparr>now1 = 5000, now2 = 5000, fetch = (\<lambda>_. Some ?r)\<rparr>"
  have f: "fetch ?w (dispatched (request ?c ?w ''GET'' ''/repos/o/r'' None None)) = Some ?r"
    by simp
  have m: \<open>errorMessage ''{"message": ""}'' = JString ''{"message": ""}''\<close>
    by (simp add: errorMessage_def message_of_empty)
  have "outcome (request ?c ?w ''GET'' ''/repos/o/r'' None None)
          = Inl (api_error 404 (body ?r))"
    by (simp add: request_after_response(2) [OF f] not_ok_examples)
  with m show ?thesis
    by (simp add: api_error_def message_of_empty dec_examples)
qed

subsection \<open>Successful responses\<close>

lemma decode_cases:
  "decode r =
     (case headers_get (headers r) ''content-type'' of
        None \<Rightarrow> Inr (Text (body r))
      | Some contentType \<Rightarrow>
          if sublist ''application/json'' contentType
          then (case JSON_parse (body r) of None \<Rightarrow> Inl SyntaxError | Some v \<Rightarrow> Inr (Json v))
          else Inr (Text (body r)))"
  by (auto simp: decode_def split: option.splits)

lemma content_type_examples:
  "headers_get [(''Content-Type'', ''application/json; charset=utf-8'')] ''content-type''
     = Some ''application/json; charset=utf-8''"
  "headers_get [(''Content-Type'', ''text/plain'')] ''content-type'' = Some ''text/plain''"
  "sublist ''application/json'' ''application/json; charset=utf-8''"
  "\<not> sublist ''application/json'' ''text/plain''"
  by code_simp+

lemma JSON_parse_id: \<open>JSON_parse ''{"id": 1}'' = Some (JObject [(''id'', JNumber 1 0)])\<close>
  by code_simp

lemma JSON_parse_nested:
  \<open>JSON_parse ''[1, "a", true, null, {"k": [2.5e3, -0.5]}]''
     = Some (JArray [JNumber 1 0, JString ''a'', JBool True, JNull,
                     JObject [(''k'', JArray [JNumber 25 2, JNumber (- 5) (- 1)])]])\<close>
  \<open>JSON_parse ''{"a": 1, "b": "x y", "a": 2}''
     = Some (JObject [(''a'', JNumber 2 0), (''b'', JString ''x y'')])\<close>
  \<open>JSON_parse (CHR 0x22 # ''a'' @ [CHR 0x5C] @ ''n'' @ [CHR 0x5C] @ ''u0041'' @ [CHR 0x22])
     = Some (JString [CHR ''a'', CHR 0x0A, CHR ''A''])\<close>
  by code_simp+

lemma JSON_parse_errors:
  \<open>JSON_parse '''' = None\<close>
  \<open>JSON_parse ''hello'' = None\<close>
  \<open>JSON_parse ''{"id": 1'' = None\<close>
  \<open>JSON_parse ''{"id": 1} x'' = None\<close>
  by code_simp+

lemma content_type_others:
  "headers_get [(''Content-Type'', ''application/vnd.github+json'')] ''content-type''
     = Some ''application/vnd.github+json''"
  "headers_get [(''Content-Type'', ''Application/JSON'')] ''content-type'' = Some ''Application/JSON''"
  "headers_get [(''Content-Type'', ''application/json'')] ''content-type'' = Some ''application/json''"
  "\<not> sublist ''application/json'' ''application/vnd.github+json''"
  "\<not> sublist ''application/json'' ''Application/JSON''"
  "sublist ''application/json'' ''application/json''"
  by code_simp+

lemma ok_200: "ok \<lparr>status = 200, headers = hs, body = t\<rparr>"
  by (simp add: ok_def)

text \<open>
  Claim C6, as amended. For every response that is ok, the result is decided by the
  \<open>content-type\<close> header and the body alone. When the value of the header contains the
  text \<open>application/json\<close>, in these very letters, the body is parsed as JSON: the
  value parsed is returned, and a body that is no JSON text, the empty body among them,
  is the syntax error of the parser. Otherwise, and without the header, the text of the
  body is returned as it is. Two responses with the same content type and the same body
  are decoded alike, whatever else they hold. The parser reads \<open>{"id": 1}\<close> as the
  object with the one member \<open>id\<close> of value 1, and reads nested arrays and objects,
  strings with their escapes, numbers and the three literals, a repeated key taking the
  later value; it has no value for the empty text, for \<open>hello\<close>, for an object that
  is not closed and for a value followed by other text.
\<close>

theorem success_decoding:
  assumes "fetch w (dispatched (request c w meth path b h)) = Some r" and "ok r"
  shows \<open>outcome (request c w meth path b h) =
           (case headers_get (headers r) ''content-type'' of
              None \<Rightarrow> Inr (Text (body r))
            | Some contentType \<Rightarrow>
                if sublist ''application/json'' contentType
                then (case JSON_parse (body r) of
                        None \<Rightarrow> Inl SyntaxError
                      | Some v \<Rightarrow> Inr (Json v))
                else Inr (Text (body r)))
       \<and> (\<forall>r'. headers_get (headers r') ''content-type'' = headers_get (headers r) ''content-type''
                 \<and> body r' = body r \<longrightarrow>
               decode r' = outcome (request c w meth path b h))
       \<and> JSON_parse ''{"id": 1}'' = Some (JObject [(''id'', JNumber 1 0)])
       \<and> JSON_parse ''[1, "a", true, null, {"k": [2.5e3, -0.5]}]''
           = Some (JArray [JNumber 1 0, JString ''a'', JBool True, JNull,
                           JObject [(''k'', JArray [JNumber 25 2, JNumber (- 5) (- 1)])]])
       \<and> JSON_parse ''{"a": 1, "b": "x y", "a": 2}''
           = Some (JObject [(''a'', JNumber 2 0), (''b'', JString ''x y'')])
       \<and> JSON_parse (CHR 0x22 # ''a'' @ [CHR 0x5C] @ ''n'' @ [CHR 0x5C] @ ''u0041'' @ [CHR 0x22])
           = Some (JString [CHR ''a'', CHR 0x0A, CHR ''A''])
       \<and> JSON_parse '''' = None
       \<and> JSON_parse ''hello'' = None
       \<and> JSON_parse ''{"id": 1'' = None
       \<and> JSON_parse ''{"id": 1} x'' = None\<close>
proof -
  have o: "outcome (request c w meth path b h) = decode r"
    using assms(2) by (simp add: request_after_response(2) [OF assms(1)])
  show ?thesis
    unfolding o
  proof (intro conjI allI impI)
    show "decode r =
           (case headers_get (headers r) ''content-type'' of
              None \<Rightarrow> Inr (Text (body r))
            | Some contentType \<Rightarrow>
                if sublist ''application/json'' contentType
                then (case JSON_parse (body r) of
                        None \<Rightarrow> Inl SyntaxError
                      | Some v \<Rightarrow> Inr (Json v))
                else Inr (Text (body r)))"
      by (rule decode_cases)
  next
    fix r' :: Response
    assume "headers_get (headers r') ''content-type'' = headers_get (headers r) ''content-type''
                 \<and> body r' = body r"
    then show "decode r' = decode r" by (simp only: decode_def)
  qed (rule JSON_parse_id JSON_parse_nested JSON_parse_errors)+
qed

text \<open>
  The amended claim at the two examples: a JSON content type with the body
  \<open>{"id": 1}\<close>, and a plain-text content type with the body \<open>hello\<close>.
\<close>

theorem success_decoding_witness:
  \<open>outcome (request
      \<lparr>token = ''t'', baseURL = ''https://api.github.com'', rateLimit = 10,
        lastRequestTime = 0, rateLimitInfo = None\<rparr>
      \<lparr>now1 = 5000, now2 = 5000,
        fetch = (\<lambda>_. Some \<lparr>status = 200,
                   headers = [(''Content-Type'', ''application/json; charset=utf-8'')],
                   body = ''{"id": 1}''\<rparr>)\<rparr>
      ''GET'' ''/repos/o/r'' None None)
     = Inr (Json (JObject [(''id'', JNumber 1 0)]))
   \<and> outcome (request
      \<lparr>token = ''t'', baseURL = ''https://api.github.com'', rateLimit = 10,
        lastRequestTime = 0, rateLimitInfo = None\<rparr>
      \<lparr>now1 = 5000, now2 = 5000,
        fetch = (\<lambda>_. Some \<lparr>status = 200, headers = [(''Content-Type'', ''text/plain'')],
                   body = ''hello''\<rparr>)\<rparr>
      ''GET'' ''/repos/o/r'' None None)
     = Inr (Text ''hello'')\<close>
proof -
  let ?c = "\<lparr>token = ''t'', baseURL = ''https://api.github.com'', rateLimit = 10,
        lastRequestTime = 0, rateLimitInfo = None\<rparr>"
  let ?r1 = \<open>\<lparr>status = 200, headers = [(''Content-Type'', ''application/json; charset=utf-8'')],
                   body = ''{"id": 1}''\<rparr>\<close>
  let ?r2 = "\<lparr>status = 200, headers = [(''Content-Type'', ''text/plain'')], body = ''hello''\<rparr>"
  let ?w1 = "\<lparr>now1 = 5000, now2 = 5000, fetch = (\<lambda>_. Some ?r1)\<rparr>"
  let ?w2 = "\<lparr>now1 = 5000, now2 = 5000, fetch = (\<lambda>_. Some ?r2)\<rparr>"
  have f1: "fetch ?w1 (dispatched (request ?c ?w1 ''GET'' ''/repos/o/r'' None None)) = Some ?r1"
    by simp
  have f2: "fetch ?w2 (dispatched (request ?c ?w2 ''GET'' ''/repos/o/r'' None None)) = Some ?r2"
    by simp
  from success_decoding [OF f1 ok_200, THEN conjunct1]
  have "outcome (request ?c ?w1 ''GET'' ''/repos/o/r'' None None)
          = Inr (Json (JObject [(''id'', JNumber 1 0)]))"
    by (simp add: content_type_examples JSON_parse_id)
  moreover from success_decoding [OF f2 ok_200, THEN conjunct1]
  have "outcome (request ?c ?w2 ''GET'' ''/repos/o/r'' None None) = Inr (Text ''hello'')"
    by (simp add: content_type_examples)
  ultimately show ?thesis by simp
qed

text \<open>
  Claim C6 as stated fails in two ways. A content type that indicates structured JSON
  without holding the text \<open>application/json\<close> is not taken for JSON: with
  \<open>application/vnd.github+json\<close>, the media type that the client itself asks for, and
  with \<open>Application/JSON\<close>, the body \<open>{"id": 1}\<close> is returned as text and not as the
  mapping. And with a JSON content type no value is returned for a body that is no JSON
  text: the empty body of a response with the status 204 is a syntax error.
\<close>

theorem success_decoding_counterexample:
  \<open>outcome (request
      \<lparr>token = ''t'', baseURL = ''https://api.github.com'', rateLimit = 10,
        lastRequestTime = 0, rateLimitInfo = None\<rparr>
      \<lparr>now1 = 5000, now2 = 5000,
        fetch = (\<lambda>_. Some \<lparr>status = 200,
                   headers = [(''Content-Type'', ''application/vnd.github+json'')],
                   body = ''{"id": 1}''\<rparr>)\<rparr>
      ''GET'' ''/repos/o/r'' None None)
     = Inr (Text ''{"id": 1}'')
   \<and> outcome (request
      \<lparr>token = ''t'', baseURL = ''https://api.github.com'', rateLimit = 10,
        lastRequestTime = 0, rateLimitInfo = None\<rparr>
      \<lparr>now1 = 5000, now2 = 5000,
        fetch = (\<lambda>_. Some \<lparr>status = 200, headers = [(''Content-Type'', ''Application/JSON'')],
                   body = ''{"id": 1}''\<rparr>)\<rparr>
      ''GET'' ''/repos/o/r'' None None)
     = Inr (Text ''{"id": 1}'')
   \<and> outcome (request
      \<lparr>token = ''t'', baseURL = ''https://api.github.com'', rateLimit = 10,
        lastRequestTime = 0, rateLimitInfo = None\<rparr>
      \<lparr>now1 = 5000, now2 = 5000,
        fetch = (\<lambda>_. Some \<lparr>status = 204, headers = [(''Content-Type'', ''application/json'')],
                   body = ''''\<rparr>)\<rparr>
      ''GET'' ''/repos/o/r'' None None)
     = Inl SyntaxError\<close>
proof -
  let ?c = "\<lparr>token = ''t'', baseURL = ''https://api.github.com'', rateLimit = 10,
        lastRequestTime = 0, rateLimitInfo = None\<rparr>"
  let ?r1 = \<open>\<lparr>status = 200, headers = [(''Content-Type'', ''application/vnd.github+json'')],
                   body = ''{"id": 1}''\<rparr>\<close>
  let ?r2 = \<open>\<lparr>status = 200, headers = [(''Content-Type'', ''Application/JSON'')],
                   body = ''{"id": 1}''\<rparr>\<close>
  let ?r3 = "\<lparr>status = 204, headers = [(''Content-Type'', ''application/json'')], body = ''''\<rparr>"
  let ?w1 = "\<lparr>now1 = 5000, now2 = 5000, fetch = (\<lambda>_. Some ?r1)\<rparr>"
  let ?w2 = "\<lparr>now1 = 5000, now2 = 5000, fetch = (\<lambda>_. Some ?r2)\<rparr>"
  let ?w3 = "\<lparr>now1 = 5000, now2 = 5000, fetch = (\<lambda>_. Some ?r3)\<rparr>"
  have f1: "fetch ?w1 (dispatched (request ?c ?w1 ''GET'' ''/repos/o/r'' None None)) = Some ?r1"
    by simp
  have f2: "fetch ?w2 (dispatched (request ?c ?w2 ''GET'' ''/repos/o/r'' None None)) = Some ?r2"
    by simp
  have f3: "fetch ?w3 (dispatched (request ?c ?w3 ''GET'' ''/repos/o/r'' None None)) = Some ?r3"
    by simp
  have "outcome (request ?c ?w1 ''GET'' ''/repos/o/r'' None None) = Inr (Text (body ?r1))"
    by (simp add: request_after_response(2) [OF f1] ok_200 decode_cases content_type_others)
  moreover have "outcome (request ?c ?w2 ''GET'' ''/repos/o/r'' None None) = Inr (Text (body ?r2))"
    by (simp add: request_after_response(2) [OF f2] ok_200 decode_cases content_type_others)
  moreover have "outcome (request ?c ?w3 ''GET'' ''/repos/o/r'' None None) = Inl SyntaxError"
    by (simp add: request_after_response(2) [OF f3] ok_def decode_cases content_type_others
          JSON_parse_errors)
  ultimately show ?thesis by simp
qed

subsection \<open>Headers of the request, and the rate limiter\<close>

lemma default_headers_simps:
  "default_headers tok ''Authorization'' = Some (''Bearer '' @ tok)"
  "default_headers tok ''Accept'' = Some ''application/vnd.github+json''"
  "default_headers tok ''X-GitHub-Api-Version'' = Some ''2022-11-28''"
  "default_headers tok ''Content-Type'' = None"
  by (simp_all add: default_headers_def)

lemma build_headers_None:
  "build_headers c b None k =
     (if k = ''Content-Type'' \<and> has_body b then Some ''application/json''
      else default_headers (token c) k)"
  by (auto simp: build_headers_def Let_def)

lemma build_headers_Some:
  "build_headers c b (Some h) k =
     (if k = ''Content-Type'' \<and> has_body b then Some ''application/json''
      else case h k of Some v \<Rightarrow> Some v | None \<Rightarrow> default_headers (token c) k)"
  by (auto simp: build_headers_def Let_def map_add_def split: option.splits)

lemma req_headers_request:
  "req_headers (dispatched (request c w meth path b h)) = build_headers c b h"
  by (simp add: request_dispatched)

text \<open>
  Claim C8. Whatever the operation, the request handed to \<open>fetch\<close> carries the
  client's token as a bearer credential in \<open>Authorization\<close>, the \<open>Accept\<close> header of
  the JSON media type and the API version header. Every operation is a call of
  \<open>request\<close> without overrides, and so goes through the rate limiter first: the
  suspension is the one the limiter computes, and the time of the dispatch is stored
  even when the transport fails. In \<open>request\<close> itself, an override wins over a default
  (for \<open>Content-Type\<close>: unless there is a body, whose content type is set afterwards),
  and a default that no override names stays.
\<close>

theorem request_headers:
  "req_headers (dispatched (invoke c w op)) ''Authorization'' = Some (''Bearer '' @ token c)
   \<and> req_headers (dispatched (invoke c w op)) ''Accept'' = Some ''application/vnd.github+json''
   \<and> req_headers (dispatched (invoke c w op)) ''X-GitHub-Api-Version'' = Some ''2022-11-28''
   \<and> (\<exists>meth path b. invoke c w op = request c w meth path b None)
   \<and> suspended (invoke c w op) = suspension c (now1 w)
   \<and> lastRequestTime (client_after (invoke c w op)) = now2 w
   \<and> (\<forall>k v. h k = Some v \<and> (k = ''Content-Type'' \<longrightarrow> \<not> has_body b) \<longrightarrow>
         req_headers (dispatched (request c w meth path b (Some h))) k = Some v)
   \<and> (\<forall>k. h k = None \<and> k \<noteq> ''Content-Type'' \<longrightarrow>
         req_headers (dispatched (request c w meth path b (Some h))) k
           = default_headers (token c) k)
   \<and> (\<forall>k. k \<noteq> ''Content-Type'' \<longrightarrow>
         req_headers (dispatched (request c w meth path b None)) k = default_headers (token c) k)"
proof -
  obtain meth' path' b' where op: "invoke c w op = request c w meth' path' b' None"
    using invoke_request [of c w op] by blast
  have "req_headers (dispatched (invoke c w op)) ''Authorization'' = Some (''Bearer '' @ token c)"
    and "req_headers (dispatched (invoke c w op)) ''Accept'' = Some ''application/vnd.github+json''"
    and "req_headers (dispatched (invoke c w op)) ''X-GitHub-Api-Version'' = Some ''2022-11-28''"
    by (simp_all only: op req_headers_request build_headers_None default_headers_simps)
       simp_all
  moreover have "\<exists>meth path b. invoke c w op = request c w meth path b None"
    by (rule invoke_request)
  moreover have "suspended (invoke c w op) = suspension c (now1 w)"
    and "lastRequestTime (client_after (invoke c w op)) = now2 w"
    by (rule invoke_throttle)+
  moreover have "\<forall>k v. h k = Some v \<and> (k = ''Content-Type'' \<longrightarrow> \<not> has_body b) \<longrightarrow>
         req_headers (dispatched (request c w meth path b (Some h))) k = Some v"
    by (auto simp: req_headers_request build_headers_Some)
  moreover have "\<forall>k. h k = None \<and> k \<noteq> ''Content-Type'' \<longrightarrow>
         req_headers (dispatched (request c w meth path b (Some h))) k
           = default_headers (token c) k"
    by (auto simp: req_headers_request build_headers_Some)
  moreover have "\<forall>k. k \<noteq> ''Content-Type'' \<longrightarrow>
         req_headers (dispatched (request c w meth path b None)) k = default_headers (token c) k"
    by (auto simp: req_headers_request build_headers_None)
  ultimately show ?thesis by (intro conjI)
qed

text \<open>
  Claim C8 at the creation of an issue, and at a request that overrides \<open>Accept\<close> and
  leaves \<open>Authorization\<close> alone.
\<close>

theorem request_headers_witness:
  "req_headers (dispatched (invoke
        \<lparr>token = ''t'', baseURL = ''https://api.github.com'', rateLimit = 10,
          lastRequestTime = 0, rateLimitInfo = None\<rparr>
        \<lparr>now1 = 5000, now2 = 5000, fetch = (\<lambda>_. None)\<rparr>
        (CreateIssue ''o'' ''r'' (JObject [(''title'', JString ''x'')])))) ''Authorization''
      = Some ''Bearer t''
   \<and> req_headers (dispatched (request
        \<lparr>token = ''t'', baseURL = ''https://api.github.com'', rateLimit = 10,
          lastRequestTime = 0, rateLimitInfo = None\<rparr>
        \<lparr>now1 = 5000, now2 = 5000, fetch = (\<lambda>_. None)\<rparr>
        ''GET'' ''/user'' None (Some [''Accept'' \<mapsto> ''text/plain'']))) ''Accept''
      = Some ''text/plain''
   \<and> req_headers (dispatched (request
        \<lparr>token = ''t'', baseURL = ''https://api.github.com'', rateLimit = 10,
          lastRequestTime = 0, rateLimitInfo = None\<rparr>
        \<lparr>now1 = 5000, now2 = 5000, fetch = (\<lambda>_. None)\<rparr>
        ''GET'' ''/user'' None (Some [''Accept'' \<mapsto> ''text/plain'']))) ''Authorization''
      = Some ''Bearer t''"
proof -
  let ?c = "\<lparr>token = ''t'', baseURL = ''https://api.github.com'', rateLimit = 10,
          lastRequestTime = 0, rateLimitInfo = None\<rparr>"
  let ?w = "\<lparr>now1 = 5000, now2 = 5000, fetch = (\<lambda>_. None)\<rparr>"
  let ?h = "[''Accept'' \<mapsto> ''text/plain'']"
  note t = request_headers [where c = ?c and w = ?w
             and op = "CreateIssue ''o'' ''r'' (JObject [(''title'', JString ''x'')])"
             and h = ?h and b = None and meth = "''GET''" and path = "''/user''"]
  have h1: "?h ''Accept'' = Some ''text/plain'' \<and> (''Accept'' = ''Content-Type'' \<longrightarrow> \<not> has_body None)"
    by simp
  have h2: "?h ''Authorization'' = None \<and> ''Authorization'' \<noteq> ''Content-Type''"
    by simp
  from t have "req_headers (dispatched (invoke ?c ?w
                 (CreateIssue ''o'' ''r'' (JObject [(''title'', JString ''x'')])))) ''Authorization''
                 = Some (''Bearer '' @ token ?c)"
    by (rule conjunct1)
  moreover from t h1
  have "req_headers (dispatched (request ?c ?w ''GET'' ''/user'' None (Some ?h))) ''Accept''
          = Some ''text/plain''"
    by blast
  moreover from t h2
  have "req_headers (dispatched (request ?c ?w ''GET'' ''/user'' None (Some ?h))) ''Authorization''
          = default_headers (token ?c) ''Authorization''"
    by blast
  ultimately show ?thesis by (simp add: default_headers_simps)
qed

section \<open>Properties of the resource operations\<close>





lemma pval_toString_not_Nil: "pval_truthy (PString s) \<Longrightarrow> pval_toString (PString s) \<noteq> []"
  by simp













end
